theory Spec2Isabelle
  imports Main "HOL-Library.Char_ord" "HOL-Library.List_Lexorder" "HOL-Library.AList"
begin

section \<open>Simple Git Clone Manager (app.py)\<close>

text \<open>
  A shallow embedding of \<^verbatim>\<open>src/app.py\<close>: the background clone task
  (\<^verbatim>\<open>CloneThread\<close>), the catalog held in \<^verbatim>\<open>self.repos\<close> and its file
  \<^verbatim>\<open>repos.json\<close>, and the handlers of \<^verbatim>\<open>SimpleCloneManager\<close> that read or change
  them. Widget layout, styling and the theme are left out.

  Conventions.
  \<^item> A Python \<^verbatim>\<open>str\<close> is a \<open>string\<close>; \<open>Char_ord\<close> and \<open>List_Lexorder\<close> order strings
    as Python does (by code point, a proper prefix first).
  \<^item> A caught or uncaught Python exception is a value of \<open>exn\<close>; a function that can raise
    returns \<open>exn + 'a\<close>, \<open>Inl\<close> being the raise.
  \<^item> Functions of the Python library whose result the program only passes on
    (\<^verbatim>\<open>json.load\<close>, \<^verbatim>\<open>json.dump\<close>, \<^verbatim>\<open>pathlib\<close>, \<^verbatim>\<open>repr\<close>) are the fields of a
    record \<open>pylib\<close> that every definition using them takes as its first argument.
  \<^item> What the world outside the program answers (the file system, the \<^verbatim>\<open>git\<close> process,
    the user's reply to a question) is an argument of the function that asks.
\<close>

subsection \<open>Python values\<close>

text \<open>
  What \<^verbatim>\<open>json.load\<close> can return. A \<^verbatim>\<open>dict\<close> is an association list in insertion order
  whose keys are distinct (\<open>AList.update\<close> overwrites in place or appends, as item assignment
  does). The program never computes with a number; a float is kept as its literal.
\<close>

datatype json =
    JNull
  | JBool bool
  | JInt int
  | JFloat string
  | JStr string
  | JList "json list"
  | JDict "(string \<times> json) list"

datatype exn =
    TypeError
  | KeyError
  | AttributeError
  | FileNotFoundError string
  | OtherError string

definition bind :: "exn + 'a \<Rightarrow> ('a \<Rightarrow> exn + 'b) \<Rightarrow> exn + 'b" where
  "bind m f = (case m of Inl e \<Rightarrow> Inl e | Inr x \<Rightarrow> f x)"

fun startswith :: "string \<Rightarrow> string \<Rightarrow> bool" where
  "startswith s [] = True"
| "startswith [] (p # ps) = False"
| "startswith (c # s) (p # ps) = (c = p \<and> startswith s ps)"

fun contains_str :: "string \<Rightarrow> string \<Rightarrow> bool" where
  "contains_str [] sub = (sub = [])"
| "contains_str (c # s) sub = (startswith (c # s) sub \<or> contains_str s sub)"

text \<open>\<^verbatim>\<open>key in obj\<close>, \<^verbatim>\<open>obj[key]\<close>, \<^verbatim>\<open>obj[key] = v\<close> and \<^verbatim>\<open>obj.keys()\<close> for a \<^verbatim>\<open>str\<close> key.\<close>

fun py_contains :: "json \<Rightarrow> string \<Rightarrow> exn + bool" where
  "py_contains (JDict kvs) k = Inr (k \<in> set (map fst kvs))"
| "py_contains (JList xs) k = Inr (JStr k \<in> set xs)"
| "py_contains (JStr s) k = Inr (contains_str s k)"
| "py_contains JNull k = Inl TypeError"
| "py_contains (JBool b) k = Inl TypeError"
| "py_contains (JInt i) k = Inl TypeError"
| "py_contains (JFloat f) k = Inl TypeError"

fun py_getitem :: "json \<Rightarrow> string \<Rightarrow> exn + json" where
  "py_getitem (JDict kvs) k = (case map_of kvs k of None \<Rightarrow> Inl KeyError | Some v \<Rightarrow> Inr v)"
| "py_getitem JNull k = Inl TypeError"
| "py_getitem (JBool b) k = Inl TypeError"
| "py_getitem (JInt i) k = Inl TypeError"
| "py_getitem (JFloat f) k = Inl TypeError"
| "py_getitem (JStr s) k = Inl TypeError"
| "py_getitem (JList xs) k = Inl TypeError"

fun py_setitem :: "json \<Rightarrow> string \<Rightarrow> json \<Rightarrow> exn + json" where
  "py_setitem (JDict kvs) k v = Inr (JDict (AList.update k v kvs))"
| "py_setitem JNull k v = Inl TypeError"
| "py_setitem (JBool b) k v = Inl TypeError"
| "py_setitem (JInt i) k v = Inl TypeError"
| "py_setitem (JFloat f) k v = Inl TypeError"
| "py_setitem (JStr s) k v = Inl TypeError"
| "py_setitem (JList xs) k v = Inl TypeError"

fun py_keys :: "json \<Rightarrow> exn + string list" where
  "py_keys (JDict kvs) = Inr (map fst kvs)"
| "py_keys JNull = Inl AttributeError"
| "py_keys (JBool b) = Inl AttributeError"
| "py_keys (JInt i) = Inl AttributeError"
| "py_keys (JFloat f) = Inl AttributeError"
| "py_keys (JStr s) = Inl AttributeError"
| "py_keys (JList xs) = Inl AttributeError"

subsection \<open>Strings\<close>

text \<open>
  \<^verbatim>\<open>str.isspace\<close> on the code points below 256: tab to carriage return, the four
  separators \<^verbatim>\<open>0x1c\<close> to \<^verbatim>\<open>0x1f\<close>, the space, \<^verbatim>\<open>0x85\<close> and \<^verbatim>\<open>0xa0\<close>.
\<close>

definition isspace :: "char \<Rightarrow> bool" where
  "isspace c = (c \<in> set [CHR 0x09, CHR 0x0A, CHR 0x0B, CHR 0x0C, CHR 0x0D,
                          CHR 0x1C, CHR 0x1D, CHR 0x1E, CHR 0x1F, CHR 0x20, CHR 0x85, CHR 0xA0])"

definition lstrip :: "string \<Rightarrow> string" where
  "lstrip s = dropWhile isspace s"

definition rstrip :: "string \<Rightarrow> string" where
  "rstrip s = rev (dropWhile isspace (rev s))"

definition strip :: "string \<Rightarrow> string" where
  "strip s = rstrip (lstrip s)"

text \<open>Formatting an \<^verbatim>\<open>int\<close> and a \<^verbatim>\<open>bool\<close> in an f-string.\<close>

fun digits :: "nat \<Rightarrow> string" where
  "digits n = (if n < 10 then [''0123456789'' ! n]
               else digits (n div 10) @ [''0123456789'' ! (n mod 10)])"

declare digits.simps [simp del]

definition str_int :: "int \<Rightarrow> string" where
  "str_int i = (if i < 0 then ''-'' @ digits (nat (- i)) else digits (nat i))"

definition str_bool :: "bool \<Rightarrow> string" where
  "str_bool b = (if b then ''True'' else ''False'')"

subsection \<open>Library functions taken as parameters\<close>

text \<open>
  A \<^verbatim>\<open>Path\<close> is represented by its \<^verbatim>\<open>str()\<close>.
  \<^item> \<open>json_load L text\<close>: \<^verbatim>\<open>json.load\<close> on a file holding \<open>text\<close>; \<open>Inl m\<close> when decoding
    or parsing raises an exception \<^verbatim>\<open>e\<close> with \<^verbatim>\<open>str(e) = m\<close>.
  \<^item> \<open>json_dump L v\<close>: the text \<^verbatim>\<open>json.dump(v, f, indent=2)\<close> writes.
  \<^item> \<open>repr L v\<close>: what an f-string shows for a value that is not a \<^verbatim>\<open>str\<close>.
  \<^item> \<open>joinpath L a b\<close>: \<^verbatim>\<open>Path(a) / b\<close>; \<open>parent L a\<close>: \<^verbatim>\<open>Path(a).parent\<close>;
    \<open>resolve L a\<close>: \<^verbatim>\<open>Path(a).resolve()\<close>.
\<close>

record pylib =
  json_load :: "string \<Rightarrow> string + json"
  json_dump :: "json \<Rightarrow> string"
  repr :: "json \<Rightarrow> string"
  joinpath :: "string \<Rightarrow> string \<Rightarrow> string"
  parent :: "string \<Rightarrow> string"
  resolve :: "string \<Rightarrow> string"

definition format_value :: "pylib \<Rightarrow> json \<Rightarrow> string" where
  "format_value L v = (case v of JStr s \<Rightarrow> s | _ \<Rightarrow> repr L v)"

subsection \<open>The clone task: \<^verbatim>\<open>CloneThread\<close>\<close>

text \<open>
  \<^verbatim>\<open>self.url\<close> is whatever \<^verbatim>\<open>self.repos[cat][proj][comp]\<close> held, so it is a \<open>json\<close>.
\<close>

record clone_thread =
  url :: json
  dest :: string
  stopped :: bool

definition CloneThread :: "json \<Rightarrow> string \<Rightarrow> clone_thread" where
  "CloneThread u d = \<lparr>url = u, dest = d, stopped = False\<rparr>"

definition stop :: "clone_thread \<Rightarrow> clone_thread" where
  "stop t = t\<lparr>stopped := True\<rparr>"

text \<open>
  What \<^verbatim>\<open>run\<close> meets. \<^verbatim>\<open>mkdir\<close> succeeds or raises; \<^verbatim>\<open>Popen\<close> raises
  \<^verbatim>\<open>FileNotFoundError\<close>, raises another exception, or starts the process. A started
  process is described by what happens at the pipe while \<^verbatim>\<open>run\<close> iterates over
  \<^verbatim>\<open>proc.stdout\<close>: a line is read, the read raises, or, between two reads, another thread
  calls \<^verbatim>\<open>stop()\<close>. After these events the output either ends and \<^verbatim>\<open>proc.wait()\<close>
  returns the exit status, or no further line ever comes and the read blocks for ever.
\<close>

datatype pipe_event = Line string | Stop_called | Read_raises string

datatype pipe_end = Exit_status int | Never_ends

datatype popen_result =
    Popen_FileNotFoundError
  | Popen_raises string
  | Popen_started "pipe_event list" pipe_end

record run_world =
  mkdir_raises :: "string option"
  popen :: popen_result

text \<open>What \<^verbatim>\<open>run\<close> does, in order: calls into the system and signals emitted.\<close>

datatype effect =
    Mkdir string
  | Log string
  | Popen "json list"
  | Kill
  | Wait
  | Finished bool string

datatype run_end = Returns | Raises string | Blocks

text \<open>Lines 93 to 107: the loop over \<^verbatim>\<open>proc.stdout\<close>, then \<^verbatim>\<open>proc.wait()\<close>.\<close>

fun read_loop :: "bool \<Rightarrow> pipe_event list \<Rightarrow> pipe_end \<Rightarrow> effect list \<times> run_end" where
  "read_loop stp [] (Exit_status ret) =
     (if ret = 0
      then ([Wait, Log ''Clone completed successfully.\<newline>'', Finished True ''success''],
            Returns)
      else ([Wait, Log (''git exited with code '' @ str_int ret @ ''\<newline>''),
             Finished False (''exit '' @ str_int ret)], Returns))"
| "read_loop stp [] Never_ends = ([], Blocks)"
| "read_loop stp (Stop_called # evs) e = read_loop True evs e"
| "read_loop stp (Read_raises m # evs) e =
     ([Log (''Unexpected error: '' @ m @ ''\<newline>''), Finished False m], Returns)"
| "read_loop stp (Line l # evs) e =
     (if stp
      then ([Kill, Log ''Clone aborted by user.\<newline>'', Finished False ''aborted''], Returns)
      else (Log (rstrip l) # fst (read_loop stp evs e), snd (read_loop stp evs e)))"

text \<open>Lines 82 to 114. The \<^verbatim>\<open>mkdir\<close> of line 84 stands before the \<^verbatim>\<open>try\<close>.\<close>

definition run :: "pylib \<Rightarrow> run_world \<Rightarrow> clone_thread \<Rightarrow> effect list \<times> run_end" where
  "run L w t =
     (case mkdir_raises w of
        Some m \<Rightarrow> ([Mkdir (parent L (dest t))], Raises m)
      | None \<Rightarrow>
          (let start = [Mkdir (parent L (dest t)),
                        Log (''Starting clone: '' @ format_value L (url t) @ '' -> '' @ dest t
                             @ ''\<newline>''),
                        Popen [JStr ''git'', JStr ''clone'', url t, JStr (dest t)]]
           in case popen w of
                Popen_FileNotFoundError \<Rightarrow>
                  (start @
                   [Log ''Error: 'git' not found. Please install Git and ensure it is on PATH.\<newline>'',
                    Finished False ''git-not-found''], Returns)
              | Popen_raises m \<Rightarrow>
                  (start @ [Log (''Unexpected error: '' @ m @ ''\<newline>''), Finished False m],
                   Returns)
              | Popen_started evs e \<Rightarrow>
                  (start @ fst (read_loop (stopped t) evs e),
                   snd (read_loop (stopped t) evs e))))"

definition finished_events :: "effect list \<Rightarrow> (bool \<times> string) list" where
  "finished_events fx = concat (map (\<lambda>x. case x of Finished b r \<Rightarrow> [(b, r)] | _ \<Rightarrow> []) fx)"

subsection \<open>The catalog in memory and on disk\<close>

text \<open>Lines 53 to 69: the dictionary that the name \<^verbatim>\<open>SAMPLE_CONFIG\<close> is bound to when the module is loaded.\<close>

definition SAMPLE_CONFIG :: json where
  "SAMPLE_CONFIG =
     JDict
      [(''dev'',
        JDict
         [(''ProjectA'',
           JDict
            [(''Test'', JStr ''https://github.com/abhisheksainiofficial7060/testrepo.git''),
             (''Component2'', JStr ''https://github.com/user/projectA-component2.git'')]),
          (''ProjectB'',
           JDict [(''Component1'', JStr ''https://github.com/user/projectB-component1.git'')])]),
       (''localization'',
        JDict
         [(''ProjectA'',
           JDict
            [(''ui'', JStr ''https://github.com/user/localization-projectA-ui.git''),
             (''strings'',
              JStr ''https://github.com/user/localization-projectA-strings.git'')])])]"

text \<open>
  \<^verbatim>\<open>load_or_create_config\<close> returns either the object \<^verbatim>\<open>SAMPLE_CONFIG\<close> itself (no copy is
  made) or a fresh object from \<^verbatim>\<open>json.load\<close>. \<^verbatim>\<open>self.repos\<close> is therefore a reference:
  item assignment through it changes the module-level dictionary in the first case.
\<close>

datatype catalog_ref = The_SAMPLE_CONFIG | Loaded json

subsection \<open>Widgets\<close>

text \<open>
  A non-editable \<^verbatim>\<open>QComboBox\<close>: its items and its current index (\<open>None\<close> is Qt's -1).
  \<^verbatim>\<open>addItems\<close> on an empty box makes the first item current.
\<close>

record combo =
  items :: "string list"
  current :: "nat option"

definition empty_combo :: combo where
  "empty_combo = \<lparr>items = [], current = None\<rparr>"

definition currentText :: "combo \<Rightarrow> string" where
  "currentText c =
     (case current c of
        None \<Rightarrow> []
      | Some i \<Rightarrow> if i < length (items c) then items c ! i else [])"

definition combo_count :: "combo \<Rightarrow> nat" where
  "combo_count c = length (items c)"

definition clear :: "combo \<Rightarrow> combo" where
  "clear c = c\<lparr>items := [], current := None\<rparr>"

definition addItems :: "string list \<Rightarrow> combo \<Rightarrow> combo" where
  "addItems xs c =
     (if items c = [] \<and> xs \<noteq> [] then c\<lparr>items := xs, current := Some 0\<rparr>
      else c\<lparr>items := items c @ xs\<rparr>)"

definition setCurrentIndex :: "nat \<Rightarrow> combo \<Rightarrow> combo" where
  "setCurrentIndex i c = c\<lparr>current := (if i < length (items c) then Some i else None)\<rparr>"

fun findText :: "string list \<Rightarrow> string \<Rightarrow> nat option" where
  "findText [] t = None"
| "findText (x # xs) t = (if x = t then Some 0 else map_option Suc (findText xs t))"

definition setCurrentText :: "string \<Rightarrow> combo \<Rightarrow> combo" where
  "setCurrentText t c =
     (case findText (items c) t of None \<Rightarrow> c | Some i \<Rightarrow> setCurrentIndex i c)"

text \<open>
  A row of the sidebar, by the data stored with it (line 298 or 302); its label is derived
  from that data.
\<close>

datatype sidebar_item = Category_item string | Project_item string string

datatype icon = Information | Warning | Critical | Question

datatype message_box = MessageBox icon string string

datatype fs_call = Rmtree string | Unlink string

subsection \<open>The main window and the catalog file\<close>

text \<open>
  The fields of \<^verbatim>\<open>SimpleCloneManager\<close> the handlers use, the current content of the
  module-level dictionary \<^verbatim>\<open>SAMPLE_CONFIG\<close>, and the state of the file \<^verbatim>\<open>repos.json\<close>:
  \<^item> \<open>config_file\<close>: the file's text, \<open>None\<close> when \<^verbatim>\<open>CONFIG_FILE.exists()\<close> is false;
  \<^item> \<open>config_read_error\<close>: \<open>Some m\<close> when opening or reading it raises (\<^verbatim>\<open>str(e) = m\<close>);
  \<^item> \<open>config_write_error\<close>: \<open>Some m\<close> when opening it for writing raises; the file is then
    left as it was.
  \<open>live_threads\<close> lists the \<^verbatim>\<open>CloneThread\<close>s that were started and whose \<^verbatim>\<open>run\<close> has
  not ended; \<open>message_boxes\<close> the \<^verbatim>\<open>QMessageBox\<close>es shown so far; \<open>fs_calls\<close> the
  deletions made at the destination; \<open>add_dialog_open\<close> whether the Add Project dialog is
  open.
\<close>

record app =
  sample_config :: json
  repos :: catalog_ref
  config_file :: "string option"
  config_read_error :: "string option"
  config_write_error :: "string option"
  cat_combo :: combo
  project_combo :: combo
  component_combo :: combo
  dest_line :: string
  clone_btn_enabled :: bool
  log_view :: "string list"
  sidebar :: "sidebar_item list"
  clone_thread :: "clone_thread option"
  live_threads :: "clone_thread list"
  message_boxes :: "message_box list"
  fs_calls :: "fs_call list"
  add_dialog_open :: bool

text \<open>The catalog a reference denotes in a state.\<close>

definition catalog_of :: "catalog_ref \<Rightarrow> app \<Rightarrow> json" where
  "catalog_of r s = (case r of The_SAMPLE_CONFIG \<Rightarrow> sample_config s | Loaded j \<Rightarrow> j)"

definition repos_value :: "app \<Rightarrow> json" where
  "repos_value s = (case repos s of The_SAMPLE_CONFIG \<Rightarrow> sample_config s | Loaded j \<Rightarrow> j)"

definition set_repos_value :: "json \<Rightarrow> app \<Rightarrow> app" where
  "set_repos_value j s =
     (case repos s of
        The_SAMPLE_CONFIG \<Rightarrow> s\<lparr>sample_config := j\<rparr>
      | Loaded old \<Rightarrow> s\<lparr>repos := Loaded j\<rparr>)"

definition append_log :: "string \<Rightarrow> app \<Rightarrow> app" where
  "append_log t s = s\<lparr>log_view := log_view s @ [t]\<rparr>"

definition show_box :: "icon \<Rightarrow> string \<Rightarrow> string \<Rightarrow> app \<Rightarrow> app" where
  "show_box i title body s = s\<lparr>message_boxes := message_boxes s @ [MessageBox i title body]\<rparr>"

text \<open>Lines 275 to 289.\<close>

definition load_or_create_config :: "pylib \<Rightarrow> app \<Rightarrow> exn + catalog_ref \<times> app" where
  "load_or_create_config L s =
     (case config_file s of
        None \<Rightarrow>
          (case config_write_error s of
             Some m \<Rightarrow> Inl (OtherError m)
           | None \<Rightarrow>
               Inr (The_SAMPLE_CONFIG,
                    show_box Information ''Sample Config Created''
                      (''repos.json was not found and a sample has been created at ''
                       @ resolve L ''repos.json''
                       @ ''\<newline>\<newline>Please update it with your repo links.'')
                      (s\<lparr>config_file := Some (json_dump L (sample_config s))\<rparr>)))
      | Some content \<Rightarrow>
          (case (case config_read_error s of Some m \<Rightarrow> Inl m | None \<Rightarrow> json_load L content) of
             Inr data \<Rightarrow> Inr (Loaded data, s)
           | Inl m \<Rightarrow>
               Inr (The_SAMPLE_CONFIG,
                    show_box Critical ''Config Error'' (''Failed to read repos.json: '' @ m) s)))"

subsection \<open>Selection handlers\<close>

text \<open>
  A handler is called in two ways.
  \<^item> Directly, by another method or by Qt for a user action. An exception that leaves it
    is not caught anywhere in the program; the caller's result is then \<open>Inl\<close>, and the
    state left behind is not modelled for the caller.
  \<^item> As the slot of \<^verbatim>\<open>currentTextChanged\<close> (connected in lines 183 and 187), from inside
    the call that changes a combo box. Under PySide6, which the program imports first, an
    exception raised in such a slot is printed and the emitting call returns: the change
    stands, and the caller goes on with the state the slot left.
  The two selection handlers are slots, so each returns the exception that left it, if any,
  together with the state it left; \<open>propagate\<close> turns that into the result of a direct
  call.
\<close>

definition propagate :: "exn option \<times> app \<Rightarrow> exn + app" where
  "propagate r = (case fst r of None \<Rightarrow> Inr (snd r) | Some e \<Rightarrow> Inl e)"

text \<open>
  Lines 336 to 341. The condition of line 340 and the keys of line 341 are computed first:
  an exception, nothing to show, or the keys to show.
\<close>

definition on_project_change :: "string \<Rightarrow> app \<Rightarrow> exn option \<times> app" where
  "on_project_change text s =
     (let s1 = s\<lparr>component_combo := clear (component_combo s)\<rparr>;
          cat = currentText (cat_combo s1);
          proj = text
      in if cat \<noteq> [] \<and> proj \<noteq> [] then
           (case bind (py_contains (repos_value s1) cat) (\<lambda>has_cat.
                 if \<not> has_cat then Inr None else
                 bind (py_getitem (repos_value s1) cat) (\<lambda>projects.
                 bind (py_contains projects proj) (\<lambda>has_proj.
                 if \<not> has_proj then Inr None else
                 bind (py_getitem projects proj) (\<lambda>components.
                 bind (py_keys components) (\<lambda>ks. Inr (Some ks)))))) of
              Inl e \<Rightarrow> (Some e, s1)
            | Inr None \<Rightarrow> (None, s1)
            | Inr (Some ks) \<Rightarrow>
                (None, s1\<lparr>component_combo := addItems (sort ks) (component_combo s1)\<rparr>))
         else (None, s1))"

text \<open>
  A change of \<^verbatim>\<open>project_combo\<close>: \<^verbatim>\<open>currentTextChanged\<close> is emitted when the current text
  changes, and line 187 connects it to \<^verbatim>\<open>on_project_change\<close>.
\<close>

definition set_project_combo :: "combo \<Rightarrow> app \<Rightarrow> app" where
  "set_project_combo c s =
     (if currentText c \<noteq> currentText (project_combo s)
      then snd (on_project_change (currentText c) (s\<lparr>project_combo := c\<rparr>))
      else s\<lparr>project_combo := c\<rparr>)"

text \<open>Lines 328 to 334.\<close>

definition on_category_change :: "string \<Rightarrow> app \<Rightarrow> exn option \<times> app" where
  "on_category_change text s =
     (let s1 = set_project_combo (clear (project_combo s)) s
      in if text \<noteq> [] then
           (case bind (py_contains (repos_value s1) text) (\<lambda>has_cat.
                 if \<not> has_cat then Inr None else
                 bind (py_getitem (repos_value s1) text) (\<lambda>projects.
                 bind (py_keys projects) (\<lambda>ks. Inr (Some ks)))) of
              Inl e \<Rightarrow> (Some e, s1)
            | Inr None \<Rightarrow> (None, s1)
            | Inr (Some ks) \<Rightarrow>
                (let s2 = set_project_combo (addItems (sort ks) (project_combo s1)) s1
                 in if combo_count (project_combo s2) > 0 then
                      (let s3 = set_project_combo (setCurrentIndex 0 (project_combo s2)) s2
                       in on_project_change (currentText (project_combo s3)) s3)
                    else (None, s2)))
         else (None, s1))"

text \<open>A change of \<^verbatim>\<open>cat_combo\<close>, connected to \<^verbatim>\<open>on_category_change\<close> in line 183.\<close>

definition set_cat_combo :: "combo \<Rightarrow> app \<Rightarrow> app" where
  "set_cat_combo c s =
     (if currentText c \<noteq> currentText (cat_combo s)
      then snd (on_category_change (currentText c) (s\<lparr>cat_combo := c\<rparr>))
      else s\<lparr>cat_combo := c\<rparr>)"

text \<open>Lines 292 to 303.\<close>

fun sidebar_rows :: "json \<Rightarrow> string list \<Rightarrow> exn + sidebar_item list" where
  "sidebar_rows R [] = Inr []"
| "sidebar_rows R (cat # cats) =
     bind (py_getitem R cat) (\<lambda>projects.
     bind (py_keys projects) (\<lambda>ps.
     bind (sidebar_rows R cats) (\<lambda>rest.
     Inr (Category_item cat # map (Project_item cat) (sort ps) @ rest))))"

definition populate_sidebar :: "app \<Rightarrow> exn + app" where
  "populate_sidebar s =
     bind (py_keys (repos_value s)) (\<lambda>cats.
     bind (sidebar_rows (repos_value s) (sort cats)) (\<lambda>rows.
     Inr (s\<lparr>sidebar := rows\<rparr>)))"

text \<open>Lines 305 to 314.\<close>

definition refresh_projects :: "pylib \<Rightarrow> app \<Rightarrow> exn + app" where
  "refresh_projects L s =
     bind (load_or_create_config L s) (\<lambda>(r, s0).
     bind (populate_sidebar (s0\<lparr>repos := r\<rparr>)) (\<lambda>s1.
     let cur_cat = currentText (cat_combo s1);
         s2 = set_cat_combo (clear (cat_combo s1)) s1 in
     bind (py_keys (repos_value s2)) (\<lambda>cats.
     let s3 = set_cat_combo (addItems (sort cats) (cat_combo s2)) s2 in
     bind (if cur_cat \<noteq> [] then
             bind (py_contains (repos_value s3) cur_cat) (\<lambda>has_cat.
             Inr (if has_cat then set_cat_combo (setCurrentText cur_cat (cat_combo s3)) s3
                  else s3))
           else Inr s3) (\<lambda>s4.
     Inr (append_log ''Refreshed project list from repos.json'' s4)))))"

text \<open>Lines 316 to 325, for the item clicked.\<close>

definition on_sidebar_item_clicked :: "sidebar_item \<Rightarrow> app \<Rightarrow> exn + app" where
  "on_sidebar_item_clicked item s =
     (case item of
        Category_item cat \<Rightarrow> Inr s
      | Project_item cat proj \<Rightarrow>
          (let s1 = set_cat_combo (setCurrentText cat (cat_combo s)) s;
               s2 = set_project_combo (setCurrentText proj (project_combo s1)) s1
           in propagate (on_project_change proj s2)))"

subsection \<open>Starting a clone\<close>

text \<open>
  What lines 390 to 404 meet at \<^verbatim>\<open>dest_path\<close>: whether it exists (\<open>Inl m\<close>:
  \<^verbatim>\<open>exists\<close> raises), whether
  \<^verbatim>\<open>any(dest_path.iterdir())\<close> holds (\<open>Inl m\<close>: \<^verbatim>\<open>iterdir\<close> raises), the user's answer to
  the question, whether it is a directory, and whether deleting it raises.
\<close>

record dest_world =
  dest_exists :: "string + bool"
  dest_any_entry :: "string + bool"
  overwrite_yes :: bool
  dest_is_dir :: bool
  remove_raises :: "string option"

text \<open>Lines 406 to 412.\<close>

definition start_clone :: "pylib \<Rightarrow> json \<Rightarrow> string \<Rightarrow> app \<Rightarrow> app" where
  "start_clone L u dest_path s =
     (let s1 = s\<lparr>clone_btn_enabled := False\<rparr>;
          s2 = append_log (''Cloning '' @ format_value L u @ '' into '' @ dest_path @ '' ...'') s1;
          t = CloneThread u dest_path
      in s2\<lparr>clone_thread := Some t, live_threads := live_threads s2 @ [t]\<rparr>)"

text \<open>Line 377: \<^verbatim>\<open>self.repos[cat][proj][comp]\<close>.\<close>

definition lookup_url :: "json \<Rightarrow> string \<Rightarrow> string \<Rightarrow> string \<Rightarrow> exn + json" where
  "lookup_url R cat proj component =
     bind (py_getitem R cat) (\<lambda>projects.
     bind (py_getitem projects proj) (\<lambda>components.
     py_getitem components component))"

text \<open>Lines 367 to 412.\<close>

definition clone_button_clicked :: "pylib \<Rightarrow> dest_world \<Rightarrow> app \<Rightarrow> exn + app" where
  "clone_button_clicked L w s =
     (let cat = currentText (cat_combo s);
          proj = currentText (project_combo s);
          comp = currentText (component_combo s)
      in if cat = [] \<or> proj = [] \<or> comp = [] then
           Inr (show_box Warning ''Selection required''
                  ''Please select category, project and component.'' s)
         else
           case lookup_url (repos_value s) cat proj comp of
             Inl e \<Rightarrow>
               Inr (show_box Critical ''Error''
                      ''Repo URL not found in config for selected item.'' s)
           | Inr u \<Rightarrow>
               (let d = strip (dest_line s) in
                if d = [] then
                  Inr (show_box Warning ''Destination required''
                         ''Please select a destination folder.'' s)
                else
                  let dest_path = joinpath L (joinpath L d proj) comp in
                  case dest_exists w of
                    Inl m \<Rightarrow> Inl (OtherError m)
                  | Inr False \<Rightarrow> Inr (start_clone L u dest_path s)
                  | Inr True \<Rightarrow>
                    (case dest_any_entry w of
                       Inl m \<Rightarrow> Inl (OtherError m)
                     | Inr False \<Rightarrow> Inr (start_clone L u dest_path s)
                     | Inr True \<Rightarrow>
                         (let s1 = show_box Question ''Destination Not Empty''
                                     (''The destination folder '' @ dest_path
                                      @ '' already exists and is not empty. Overwrite?'') s
                          in if overwrite_yes w then
                               (let s2 = s1\<lparr>fs_calls := fs_calls s1 @
                                            [if dest_is_dir w then Rmtree dest_path
                                             else Unlink dest_path]\<rparr>
                                in case remove_raises w of
                                     Some m \<Rightarrow>
                                       Inr (show_box Critical ''Error''
                                              (''Failed to clear destination: '' @ m) s2)
                                   | None \<Rightarrow> Inr (start_clone L u dest_path s2))
                             else Inr s1))))"

text \<open>Lines 414 to 417.\<close>

definition clone_finished :: "bool \<Rightarrow> string \<Rightarrow> app \<Rightarrow> app" where
  "clone_finished success info s =
     (let s1 = append_log (''Clone finished. success='' @ str_bool success @ '', info='' @ info) s;
          s2 = show_box Information ''Clone Finished''
                 (''Finished: success='' @ str_bool success @ '', info='' @ info) s1
      in s2\<lparr>clone_btn_enabled := True\<rparr>)"

text \<open>
  The two triggers connected to \<^verbatim>\<open>clone_button_clicked\<close>: the button \<^verbatim>\<open>clone_btn\<close>
  (line 212), which emits \<^verbatim>\<open>clicked\<close> only while it is enabled, and the toolbar action
  \<^verbatim>\<open>clone_action\<close> (lines 144 to 147), which no line of the program disables.
\<close>

definition click_clone_btn :: "pylib \<Rightarrow> dest_world \<Rightarrow> app \<Rightarrow> exn + app" where
  "click_clone_btn L w s = (if clone_btn_enabled s then clone_button_clicked L w s else Inr s)"

definition trigger_clone_action :: "pylib \<Rightarrow> dest_world \<Rightarrow> app \<Rightarrow> exn + app" where
  "trigger_clone_action L w s = clone_button_clicked L w s"

text \<open>
  The signals of a thread reach the window through the connections of lines 410 and 411:
  \<^verbatim>\<open>log\<close> to \<^verbatim>\<open>append_log\<close>, \<^verbatim>\<open>finished_signal\<close> to \<^verbatim>\<open>clone_finished\<close>.
\<close>

fun deliver :: "effect list \<Rightarrow> app \<Rightarrow> app" where
  "deliver [] s = s"
| "deliver (Log l # fx) s = deliver fx (append_log l s)"
| "deliver (Finished b i # fx) s = deliver fx (clone_finished b i s)"
| "deliver (Mkdir d # fx) s = deliver fx s"
| "deliver (Popen a # fx) s = deliver fx s"
| "deliver (Kill # fx) s = deliver fx s"
| "deliver (Wait # fx) s = deliver fx s"

text \<open>
  The oldest live thread runs in the world \<open>w\<close>; its signals are delivered, and it stops
  being live unless its \<^verbatim>\<open>run\<close> blocks.
\<close>

definition thread_runs :: "pylib \<Rightarrow> run_world \<Rightarrow> app \<Rightarrow> app" where
  "thread_runs L w s =
     (case live_threads s of
        [] \<Rightarrow> s
      | t # ts \<Rightarrow>
          deliver (fst (run L w t))
            (if snd (run L w t) = Blocks then s else s\<lparr>live_threads := ts\<rparr>))"

subsection \<open>Adding a project\<close>

text \<open>Lines 467 to 476 of \<^verbatim>\<open>save_new_project\<close>, on the value of \<^verbatim>\<open>self.repos\<close>.\<close>

definition upsert_component ::
  "json \<Rightarrow> string \<Rightarrow> string \<Rightarrow> string \<Rightarrow> string \<Rightarrow> exn + json" where
  "upsert_component R repo_type_key project_name component_name repo_url =
     bind (py_contains R repo_type_key) (\<lambda>has_type.
     bind (if \<not> has_type then py_setitem R repo_type_key (JDict []) else Inr R) (\<lambda>R1.
     bind (py_getitem R1 repo_type_key) (\<lambda>projects.
     bind (py_contains projects project_name) (\<lambda>has_proj.
     bind (if \<not> has_proj then py_setitem projects project_name (JDict [])
           else Inr projects) (\<lambda>projects1.
     bind (py_getitem projects1 project_name) (\<lambda>components.
     bind (py_setitem components component_name (JStr repo_url)) (\<lambda>components1.
     bind (py_setitem projects1 project_name components1) (\<lambda>projects2.
     py_setitem R1 repo_type_key projects2))))))))"

text \<open>Lines 478 to 494 of \<^verbatim>\<open>save_new_project\<close>: writing the catalog back and showing it.\<close>

definition write_back :: "pylib \<Rightarrow> string \<Rightarrow> string \<Rightarrow> string \<Rightarrow> app \<Rightarrow> exn + app" where
  "write_back L repo_type project_name component_name s1 =
     (case config_write_error s1 of
        Some m \<Rightarrow>
          Inr (show_box Critical ''Error'' (''Failed to write repos.json: '' @ m) s1)
      | None \<Rightarrow>
          (let s2 = s1\<lparr>config_file := Some (json_dump L (repos_value s1))\<rparr>;
               s3 = append_log (''Added project: '' @ repo_type @ ''/'' @ project_name
                                @ ''/'' @ component_name @ ''\<newline>'') s2;
               s4 = show_box Information ''Saved'' ''Project added successfully.'' s3;
               s5 = s4\<lparr>add_dialog_open := False\<rparr>
           in bind (refresh_projects L s5) (\<lambda>s6.
              let s7 = set_cat_combo (setCurrentText repo_type (cat_combo s6)) s6;
                  s8 = set_project_combo (setCurrentText project_name (project_combo s7)) s7
              in Inr (s8\<lparr>component_combo :=
                         setCurrentText component_name (component_combo s8)\<rparr>))))"

text \<open>
  Lines 462 to 494: the check of lines 463 to 465, the upsert of lines 467 to 476 on
  \<^verbatim>\<open>self.repos\<close>, then the write.
\<close>

definition save_new_project ::
  "pylib \<Rightarrow> string \<Rightarrow> string \<Rightarrow> string \<Rightarrow> string \<Rightarrow> app \<Rightarrow> exn + app" where
  "save_new_project L repo_type project_name component_name repo_url s =
     (if project_name = [] \<or> component_name = [] \<or> repo_url = [] then
        Inr (show_box Warning ''Validation'' ''Please fill all fields.'' s)
      else
        bind (upsert_component (repos_value s) repo_type project_name component_name repo_url)
          (\<lambda>R. write_back L repo_type project_name component_name (set_repos_value R s)))"

subsection \<open>Start of the program\<close>

text \<open>
  Lines 126, 180 to 187 and 243 to 250 of \<^verbatim>\<open>__init__\<close>, for a given state of the file and
  a given current directory. The categories are added to \<^verbatim>\<open>cat_combo\<close> in line 182,
  before its signal is connected.
\<close>

definition init ::
  "pylib \<Rightarrow> string option \<Rightarrow> string option \<Rightarrow> string option \<Rightarrow> string \<Rightarrow> exn + app" where
  "init L file read_error write_error cwd =
     (let s = \<lparr>sample_config = SAMPLE_CONFIG, repos = The_SAMPLE_CONFIG,
               config_file = file, config_read_error = read_error,
               config_write_error = write_error,
               cat_combo = empty_combo, project_combo = empty_combo,
               component_combo = empty_combo, dest_line = joinpath L cwd ''cloned'',
               clone_btn_enabled = True, log_view = [], sidebar = [], clone_thread = None,
               live_threads = [], message_boxes = [], fs_calls = [],
               add_dialog_open = False\<rparr>
      in bind (load_or_create_config L s) (\<lambda>(r, s0).
         let s1 = s0\<lparr>repos := r\<rparr> in
         bind (py_keys (repos_value s1)) (\<lambda>cats.
         let s2 = s1\<lparr>cat_combo := addItems (sort cats) (cat_combo s1)\<rparr> in
         bind (populate_sidebar s2) (\<lambda>s3.
         if combo_count (cat_combo s3) > 0 then
           (let s4 = set_cat_combo (setCurrentIndex 0 (cat_combo s3)) s3
            in propagate (on_category_change (currentText (cat_combo s4)) s4))
         else Inr s3))))"

subsection \<open>Well-shaped catalogs\<close>

text \<open>
  The shape the program expects of \<^verbatim>\<open>self.repos\<close>: a dictionary of categories, each a
  dictionary of projects, each a dictionary from component names to URL strings.
\<close>

definition is_dict_of :: "(json \<Rightarrow> bool) \<Rightarrow> json \<Rightarrow> bool" where
  "is_dict_of P j =
     (case j of JDict kvs \<Rightarrow> distinct (map fst kvs) \<and> list_all P (map snd kvs) | _ \<Rightarrow> False)"

definition is_url :: "json \<Rightarrow> bool" where
  "is_url j = (case j of JStr u \<Rightarrow> True | _ \<Rightarrow> False)"

definition is_catalog :: "json \<Rightarrow> bool" where
  "is_catalog j = is_dict_of (is_dict_of (is_dict_of is_url)) j"

text \<open>
  The project names of a category (\<^verbatim>\<open>self.repos[cat].keys()\<close>, line 331) and the component
  names of a project (\<^verbatim>\<open>self.repos[cat][proj].keys()\<close>, line 341), in the order of the
  dictionary.
\<close>

definition project_names :: "json \<Rightarrow> string \<Rightarrow> exn + string list" where
  "project_names R cat = bind (py_getitem R cat) (\<lambda>projects. py_keys projects)"

definition component_names :: "json \<Rightarrow> string \<Rightarrow> string \<Rightarrow> exn + string list" where
  "component_names R cat proj =
     bind (py_getitem R cat) (\<lambda>projects.
     bind (py_getitem projects proj) (\<lambda>components.
     py_keys components))"

text \<open>The entries of the dictionary stored under a key; none when the key is absent.\<close>

definition dict_at :: "(string \<times> json) list \<Rightarrow> string \<Rightarrow> (string \<times> json) list" where
  "dict_at kvs k = (case map_of kvs k of Some (JDict ps) \<Rightarrow> ps | _ \<Rightarrow> [])"

subsection \<open>An instance of the library\<close>

text \<open>
  A small stand-in for the library functions, used only to run the definitions on concrete
  inputs: it parses two documents and takes every other text as malformed, and it joins
  paths with a slash.
\<close>

definition demo_lib :: pylib where
  "demo_lib =
     \<lparr>json_load = (\<lambda>content.
        if content = ''[]'' then Inr (JList [])
        else if content = ''{}'' then Inr (JDict [])
        else Inl ''Expecting value: line 1 column 1 (char 0)''),
      json_dump = (\<lambda>v. if v = JDict [] then ''{}'' else ''{ ... }''),
      repr = (\<lambda>v. ''<object>''),
      joinpath = (\<lambda>a b. a @ ''/'' @ b),
      parent = (\<lambda>a. rev (tl (dropWhile (\<lambda>c. c \<noteq> CHR ''/'') (rev a)))),
      resolve = (\<lambda>a. ''/home/user/'' @ a)\<rparr>"

text \<open>The window as \<^verbatim>\<open>__init__\<close> leaves it when there is no \<^verbatim>\<open>repos.json\<close>.\<close>

definition demo_app :: app where
  "demo_app =
     \<lparr>sample_config = SAMPLE_CONFIG, repos = The_SAMPLE_CONFIG,
      config_file = Some ''{ ... }'', config_read_error = None, config_write_error = None,
      cat_combo = \<lparr>items = [''dev'', ''localization''], current = Some 0\<rparr>,
      project_combo = \<lparr>items = [''ProjectA'', ''ProjectB''], current = Some 0\<rparr>,
      component_combo = \<lparr>items = [''Component2'', ''Test''], current = Some 0\<rparr>,
      dest_line = ''/home/user/cloned'', clone_btn_enabled = True, log_view = [],
      sidebar = [Category_item ''dev'', Project_item ''dev'' ''ProjectA'',
                 Project_item ''dev'' ''ProjectB'', Category_item ''localization'',
                 Project_item ''localization'' ''ProjectA''],
      clone_thread = None, live_threads = [],
      message_boxes = [MessageBox Information ''Sample Config Created''
        (''repos.json was not found and a sample has been created at ''
         @ ''/home/user/repos.json''
         @ ''\<newline>\<newline>Please update it with your repo links.'')],
      fs_calls = [], add_dialog_open = False\<rparr>"

text \<open>
  The window as \<^verbatim>\<open>__init__\<close> leaves it when \<^verbatim>\<open>repos.json\<close> holds one category whose name
  is the empty string, with one project and one component.
\<close>

definition unnamed_catalog :: json where
  "unnamed_catalog = JDict [('''', JDict [(''P'', JDict [(''C'', JStr ''u'')])])]"

definition unnamed_app :: app where
  "unnamed_app =
     \<lparr>sample_config = SAMPLE_CONFIG, repos = Loaded unnamed_catalog,
      config_file = Some ''{ ... }'', config_read_error = None, config_write_error = None,
      cat_combo = \<lparr>items = [''''], current = Some 0\<rparr>,
      project_combo = empty_combo, component_combo = empty_combo,
      dest_line = ''/home/user/cloned'', clone_btn_enabled = True, log_view = [],
      sidebar = [Category_item '''', Project_item '''' ''P''],
      clone_thread = None, live_threads = [], message_boxes = [],
      fs_calls = [], add_dialog_open = False\<rparr>"

text \<open>
  The same for a catalog whose category \<^verbatim>\<open>dev\<close> has one project, named by the empty
  string, with one component.
\<close>

definition unnamed_project_catalog :: json where
  "unnamed_project_catalog = JDict [(''dev'', JDict [('''', JDict [(''C'', JStr ''u'')])])]"

definition unnamed_project_app :: app where
  "unnamed_project_app =
     \<lparr>sample_config = SAMPLE_CONFIG, repos = Loaded unnamed_project_catalog,
      config_file = Some ''{ ... }'', config_read_error = None, config_write_error = None,
      cat_combo = \<lparr>items = [''dev''], current = Some 0\<rparr>,
      project_combo = \<lparr>items = [''''], current = Some 0\<rparr>,
      component_combo = empty_combo,
      dest_line = ''/home/user/cloned'', clone_btn_enabled = True, log_view = [],
      sidebar = [Category_item ''dev'', Project_item ''dev'' ''''],
      clone_thread = None, live_threads = [], message_boxes = [],
      fs_calls = [], add_dialog_open = False\<rparr>"

text \<open>
  The window \<open>demo_app\<close> after Add Project with the fields \<^verbatim>\<open>dev\<close>, \<^verbatim>\<open>ProjectC\<close>,
  \<^verbatim>\<open>Core\<close> and a URL, when \<^verbatim>\<open>repos.json\<close> could not be opened for writing.
  \<^verbatim>\<open>self.repos\<close> is still the object \<^verbatim>\<open>SAMPLE_CONFIG\<close>, which now holds the new project.
\<close>

definition edited_app :: app where
  "edited_app =
     demo_app
      \<lparr>sample_config :=
         JDict
          [(''dev'',
            JDict
             [(''ProjectA'',
               JDict
                [(''Test'', JStr ''https://github.com/abhisheksainiofficial7060/testrepo.git''),
                 (''Component2'', JStr ''https://github.com/user/projectA-component2.git'')]),
              (''ProjectB'',
               JDict [(''Component1'', JStr ''https://github.com/user/projectB-component1.git'')]),
              (''ProjectC'',
               JDict [(''Core'', JStr ''https://github.com/user/projectC-core.git'')])]),
           (''localization'',
            JDict
             [(''ProjectA'',
               JDict
                [(''ui'', JStr ''https://github.com/user/localization-projectA-ui.git''),
                 (''strings'',
                  JStr ''https://github.com/user/localization-projectA-strings.git'')])])],
       config_write_error := Some ''[Errno 13] Permission denied'',
       message_boxes := message_boxes demo_app @
         [MessageBox Critical ''Error''
            ''Failed to write repos.json: [Errno 13] Permission denied'']\<rparr>"

text \<open>A destination that does not exist yet.\<close>

definition fresh_dest :: dest_world where
  "fresh_dest = \<lparr>dest_exists = Inr False, dest_any_entry = Inr False, overwrite_yes = False,
                  dest_is_dir = False, remove_raises = None\<rparr>"

section \<open>Properties\<close>

subsection \<open>The example windows are reachable\<close>

lemma demo_app_init: "init demo_lib None None None ''/home/user'' = Inr demo_app"
  by (simp add: init_def demo_app_def demo_lib_def load_or_create_config_def show_box_def
      bind_def SAMPLE_CONFIG_def repos_value_def empty_combo_def addItems_def
      populate_sidebar_def combo_count_def set_cat_combo_def setCurrentIndex_def
      currentText_def on_category_change_def set_project_combo_def clear_def
      on_project_change_def propagate_def Let_def)

lemma unnamed_app_init:
  "init (demo_lib\<lparr>json_load := (\<lambda>content. Inr unnamed_catalog)\<rparr>) (Some ''{ ... }'') None None
     ''/home/user'' = Inr unnamed_app"
  by (simp add: init_def unnamed_app_def unnamed_catalog_def demo_lib_def
      load_or_create_config_def bind_def repos_value_def empty_combo_def addItems_def
      populate_sidebar_def combo_count_def set_cat_combo_def setCurrentIndex_def
      currentText_def on_category_change_def set_project_combo_def clear_def
      on_project_change_def propagate_def Let_def)

lemma unnamed_project_app_init:
  "init (demo_lib\<lparr>json_load := (\<lambda>content. Inr unnamed_project_catalog)\<rparr>) (Some ''{ ... }'')
     None None ''/home/user'' = Inr unnamed_project_app"
  by (simp add: init_def unnamed_project_app_def unnamed_project_catalog_def demo_lib_def
      load_or_create_config_def bind_def repos_value_def empty_combo_def addItems_def
      populate_sidebar_def combo_count_def set_cat_combo_def setCurrentIndex_def
      currentText_def on_category_change_def set_project_combo_def clear_def
      on_project_change_def propagate_def Let_def)

lemma edited_app_reached:
  "save_new_project demo_lib ''dev'' ''ProjectC'' ''Core''
     ''https://github.com/user/projectC-core.git''
     (demo_app\<lparr>config_write_error := Some ''[Errno 13] Permission denied''\<rparr>) = Inr edited_app"
  by (simp add: save_new_project_def write_back_def upsert_component_def bind_def
      set_repos_value_def repos_value_def show_box_def demo_app_def edited_app_def
      SAMPLE_CONFIG_def)

subsection \<open>Loading the catalog\<close>

text \<open>
  C10: \<^verbatim>\<open>load_or_create_config\<close> does not look at the shape of what it has parsed. When
  the file exists, can be read and \<^verbatim>\<open>json.load\<close> returns a value, that value (an array, a
  string, any document) is returned as the catalog, and the state is unchanged: no message
  box is shown.
\<close>

theorem C10_load_returns_any_parsed_document:
  assumes "config_file s = Some content"
    and "config_read_error s = None"
    and "json_load L content = Inr data"
  shows "load_or_create_config L s = Inr (Loaded data, s)"
  using assms by (simp add: load_or_create_config_def)

theorem C10_load_returns_any_parsed_document_witness:
  "config_file (demo_app\<lparr>config_file := Some ''[]''\<rparr>) = Some ''[]''
   \<and> config_read_error (demo_app\<lparr>config_file := Some ''[]''\<rparr>) = None
   \<and> json_load demo_lib ''[]'' = Inr (JList [])
   \<and> load_or_create_config demo_lib (demo_app\<lparr>config_file := Some ''[]''\<rparr>)
       = Inr (Loaded (JList []), demo_app\<lparr>config_file := Some ''[]''\<rparr>)"
proof -
  have a: "config_file (demo_app\<lparr>config_file := Some ''[]''\<rparr>) = Some ''[]''"
    by simp
  have b: "config_read_error (demo_app\<lparr>config_file := Some ''[]''\<rparr>) = None"
    by (simp add: demo_app_def)
  have c: "json_load demo_lib ''[]'' = Inr (JList [])"
    by (simp add: demo_lib_def)
  show ?thesis
    using C10_load_returns_any_parsed_document [OF a b c] a b c by simp
qed

text \<open>
  On a read or parse error with message \<open>m\<close>, \<^verbatim>\<open>load_or_create_config\<close> shows the critical
  box ``Config Error'' with that message and returns the object \<^verbatim>\<open>SAMPLE_CONFIG\<close>. The state
  it leaves differs from the one it found only by that box: the file is neither written nor
  changed.
\<close>

lemma load_malformed_falls_back:
  assumes "config_file s = Some content"
    and "config_read_error s = Some m
         \<or> config_read_error s = None \<and> json_load L content = Inl m"
  shows "load_or_create_config L s =
           Inr (The_SAMPLE_CONFIG,
                s\<lparr>message_boxes := message_boxes s @
                     [MessageBox Critical ''Config Error''
                        (''Failed to read repos.json: '' @ m)]\<rparr>)"
  using assms by (auto simp add: load_or_create_config_def show_box_def)

text \<open>
  C4: on a file that fails to parse, \<^verbatim>\<open>load_or_create_config\<close> should return the built-in
  default catalog. It returns the module-level dictionary \<^verbatim>\<open>SAMPLE_CONFIG\<close> itself, and line
  476 changes that dictionary in place while \<^verbatim>\<open>self.repos\<close> is bound to it. In the window
  \<open>edited_app\<close>, reached from the start without \<^verbatim>\<open>repos.json\<close> by one Add Project, a file
  that has since become malformed makes it return a catalog that holds the added project
  \<^verbatim>\<open>ProjectC\<close>, which the built-in default of lines 53 to 69 does not have.
\<close>

theorem C4_fallback_returns_changed_default:
  "load_or_create_config demo_lib (edited_app\<lparr>config_file := Some ''not json''\<rparr>) =
     Inr (The_SAMPLE_CONFIG,
          edited_app\<lparr>config_file := Some ''not json'',
            message_boxes := message_boxes edited_app @
              [MessageBox Critical ''Config Error''
                 ''Failed to read repos.json: Expecting value: line 1 column 1 (char 0)'']\<rparr>)
   \<and> lookup_url
         (catalog_of The_SAMPLE_CONFIG
            (edited_app\<lparr>config_file := Some ''not json'',
               message_boxes := message_boxes edited_app @
                 [MessageBox Critical ''Config Error''
                    ''Failed to read repos.json: Expecting value: line 1 column 1 (char 0)'']\<rparr>))
         ''dev'' ''ProjectC'' ''Core''
       = Inr (JStr ''https://github.com/user/projectC-core.git'')
   \<and> lookup_url SAMPLE_CONFIG ''dev'' ''ProjectC'' ''Core'' = Inl KeyError"
proof -
  have a: "config_file (edited_app\<lparr>config_file := Some ''not json''\<rparr>) = Some ''not json''"
    by simp
  have b: "config_read_error (edited_app\<lparr>config_file := Some ''not json''\<rparr>) = None
           \<and> json_load demo_lib ''not json'' = Inl ''Expecting value: line 1 column 1 (char 0)''"
    by (simp add: edited_app_def demo_app_def demo_lib_def)
  have c: "lookup_url (sample_config edited_app) ''dev'' ''ProjectC'' ''Core''
             = Inr (JStr ''https://github.com/user/projectC-core.git'')"
    by (simp add: edited_app_def lookup_url_def bind_def)
  have d: "lookup_url SAMPLE_CONFIG ''dev'' ''ProjectC'' ''Core'' = Inl KeyError"
    by (simp add: SAMPLE_CONFIG_def lookup_url_def bind_def)
  from load_malformed_falls_back [OF a, of "''Expecting value: line 1 column 1 (char 0)''" demo_lib]
    b c d
  show ?thesis by (simp add: catalog_of_def)
qed

text \<open>
  C5 (as amended): the file does not exist. If it can be opened for writing and the
  dictionary \<^verbatim>\<open>SAMPLE_CONFIG\<close> still holds the built-in default, \<^verbatim>\<open>load_or_create_config\<close>
  writes the dump of the built-in default to it, shows the box ``Sample Config Created'' and
  returns a catalog equal to the built-in default. If opening it for writing raises, that
  exception leaves \<^verbatim>\<open>load_or_create_config\<close>, which returns nothing.
\<close>

theorem C5_missing_file_created:
  assumes "config_file s = None"
  shows "(config_write_error s = None \<and> sample_config s = SAMPLE_CONFIG \<longrightarrow>
            load_or_create_config L s =
              Inr (The_SAMPLE_CONFIG,
                   s\<lparr>config_file := Some (json_dump L SAMPLE_CONFIG),
                     message_boxes := message_boxes s @
                       [MessageBox Information ''Sample Config Created''
                         (''repos.json was not found and a sample has been created at ''
                          @ resolve L ''repos.json''
                          @ ''\<newline>\<newline>Please update it with your repo links.'')]\<rparr>)
            \<and> catalog_of The_SAMPLE_CONFIG
                  (s\<lparr>config_file := Some (json_dump L SAMPLE_CONFIG),
                     message_boxes := message_boxes s @
                       [MessageBox Information ''Sample Config Created''
                         (''repos.json was not found and a sample has been created at ''
                          @ resolve L ''repos.json''
                          @ ''\<newline>\<newline>Please update it with your repo links.'')]\<rparr>)
                = SAMPLE_CONFIG)
         \<and> (\<forall>m. config_write_error s = Some m \<longrightarrow>
                load_or_create_config L s = Inl (OtherError m))"
  using assms by (simp add: load_or_create_config_def show_box_def catalog_of_def)

theorem C5_missing_file_created_witness:
  "config_file (demo_app\<lparr>config_file := None\<rparr>) = None
   \<and> config_write_error (demo_app\<lparr>config_file := None\<rparr>) = None
   \<and> sample_config (demo_app\<lparr>config_file := None\<rparr>) = SAMPLE_CONFIG
   \<and> load_or_create_config demo_lib (demo_app\<lparr>config_file := None\<rparr>) =
       Inr (The_SAMPLE_CONFIG,
            demo_app\<lparr>config_file := Some (json_dump demo_lib SAMPLE_CONFIG),
              message_boxes := message_boxes demo_app @
                [MessageBox Information ''Sample Config Created''
                  (''repos.json was not found and a sample has been created at ''
                   @ ''/home/user/repos.json''
                   @ ''\<newline>\<newline>Please update it with your repo links.'')]\<rparr>)
   \<and> config_file
        (demo_app\<lparr>config_file := None,
           config_write_error := Some ''[Errno 30] Read-only file system''\<rparr>) = None
   \<and> load_or_create_config demo_lib
        (demo_app\<lparr>config_file := None,
           config_write_error := Some ''[Errno 30] Read-only file system''\<rparr>)
       = Inl (OtherError ''[Errno 30] Read-only file system'')"
proof -
  have a: "config_file (demo_app\<lparr>config_file := None\<rparr>) = None"
    by simp
  have b: "config_write_error (demo_app\<lparr>config_file := None\<rparr>) = None"
    by (simp add: demo_app_def)
  have c: "sample_config (demo_app\<lparr>config_file := None\<rparr>) = SAMPLE_CONFIG"
    by (simp add: demo_app_def)
  have d: "resolve demo_lib ''repos.json'' = ''/home/user/repos.json''"
    by (simp add: demo_lib_def)
  have e: "config_file
        (demo_app\<lparr>config_file := None,
           config_write_error := Some ''[Errno 30] Read-only file system''\<rparr>) = None"
    by simp
  have f: "config_write_error
        (demo_app\<lparr>config_file := None,
           config_write_error := Some ''[Errno 30] Read-only file system''\<rparr>)
        = Some ''[Errno 30] Read-only file system''"
    by simp
  show ?thesis
    using C5_missing_file_created [OF a, of demo_lib] C5_missing_file_created [OF e, of demo_lib]
      a b c d e f
    by simp
qed

text \<open>
  Two windows in which the file does not exist. In the first it cannot be created (the
  directory is not writable): the exception of \<^verbatim>\<open>open\<close> leaves
  \<^verbatim>\<open>load_or_create_config\<close>, which returns nothing. In the second it can be created, but an
  earlier Add Project has changed \<^verbatim>\<open>SAMPLE_CONFIG\<close> in place: the catalog returned holds the
  project \<^verbatim>\<open>ProjectC\<close>, which the built-in default does not have.
\<close>

theorem C5_missing_file_counterexample:
  "config_file
     (demo_app\<lparr>config_file := None,
        config_write_error := Some ''[Errno 13] Permission denied''\<rparr>) = None
   \<and> load_or_create_config demo_lib
        (demo_app\<lparr>config_file := None,
           config_write_error := Some ''[Errno 13] Permission denied''\<rparr>)
      = Inl (OtherError ''[Errno 13] Permission denied'')
   \<and> config_file (edited_app\<lparr>config_file := None, config_write_error := None\<rparr>) = None
   \<and> load_or_create_config demo_lib
        (edited_app\<lparr>config_file := None, config_write_error := None\<rparr>)
      = Inr (The_SAMPLE_CONFIG,
             edited_app\<lparr>config_file := Some (json_dump demo_lib (sample_config edited_app)),
               config_write_error := None,
               message_boxes := message_boxes edited_app @
                 [MessageBox Information ''Sample Config Created''
                   (''repos.json was not found and a sample has been created at ''
                    @ ''/home/user/repos.json''
                    @ ''\<newline>\<newline>Please update it with your repo links.'')]\<rparr>)
   \<and> lookup_url
         (catalog_of The_SAMPLE_CONFIG
            (edited_app\<lparr>config_file := Some (json_dump demo_lib (sample_config edited_app)),
               config_write_error := None,
               message_boxes := message_boxes edited_app @
                 [MessageBox Information ''Sample Config Created''
                   (''repos.json was not found and a sample has been created at ''
                    @ ''/home/user/repos.json''
                    @ ''\<newline>\<newline>Please update it with your repo links.'')]\<rparr>))
         ''dev'' ''ProjectC'' ''Core''
       = Inr (JStr ''https://github.com/user/projectC-core.git'')
   \<and> lookup_url SAMPLE_CONFIG ''dev'' ''ProjectC'' ''Core'' = Inl KeyError"
  by (simp add: load_or_create_config_def show_box_def demo_lib_def edited_app_def
      SAMPLE_CONFIG_def lookup_url_def bind_def catalog_of_def)

subsection \<open>The clone task\<close>

lemma finished_events_simps [simp]:
  "finished_events [] = []"
  "finished_events (Finished b r # fx) = (b, r) # finished_events fx"
  "finished_events (Log l # fx) = finished_events fx"
  "finished_events (Mkdir d # fx) = finished_events fx"
  "finished_events (Popen a # fx) = finished_events fx"
  "finished_events (Kill # fx) = finished_events fx"
  "finished_events (Wait # fx) = finished_events fx"
  by (simp_all add: finished_events_def)

lemma finished_events_append [simp]:
  "finished_events (fx @ gx) = finished_events fx @ finished_events gx"
  by (simp add: finished_events_def)

text \<open>The loop either blocks, with no event emitted, or returns after exactly one.\<close>

lemma read_loop_blocks_or_one:
  "(snd (read_loop stp evs e) = Blocks \<and> finished_events (fst (read_loop stp evs e)) = [])
   \<or> (snd (read_loop stp evs e) = Returns
       \<and> length (finished_events (fst (read_loop stp evs e))) = 1)"
  by (induction stp evs e rule: read_loop.induct) auto

text \<open>
  Once \<^verbatim>\<open>mkdir\<close> has succeeded, a \<^verbatim>\<open>run\<close> that does not block returns and has emitted
  \<^verbatim>\<open>finished_signal\<close> exactly once.
\<close>

lemma run_finished_once:
  assumes "mkdir_raises w = None" and "snd (run L w t) \<noteq> Blocks"
  shows "snd (run L w t) = Returns \<and> length (finished_events (fst (run L w t))) = 1"
proof (cases "popen w")
  case Popen_FileNotFoundError
  with assms show ?thesis by (simp add: run_def)
next
  case (Popen_raises m)
  with assms show ?thesis by (simp add: run_def)
next
  case (Popen_started evs e)
  with assms read_loop_blocks_or_one [of "stopped t" evs e] show ?thesis
    by (auto simp add: run_def)
qed

lemma run_mkdir_raises:
  "mkdir_raises w = Some m \<Longrightarrow> run L w t = ([Mkdir (parent L (dest t))], Raises m)"
  by (simp add: run_def)

lemma run_exit_status:
  assumes "mkdir_raises w = None"
    and "popen w = Popen_started (map Line ls) (Exit_status n)"
    and "\<not> stopped t"
  shows "finished_events (fst (run L w t)) =
           [if n = 0 then (True, ''success'') else (False, ''exit '' @ str_int n)]"
proof -
  have "finished_events (fst (read_loop False (map Line ls) (Exit_status n))) =
          [if n = 0 then (True, ''success'') else (False, ''exit '' @ str_int n)]"
    by (induction ls) auto
  with assms show ?thesis by (simp add: run_def)
qed

lemma run_git_not_found:
  "mkdir_raises w = None \<Longrightarrow> popen w = Popen_FileNotFoundError \<Longrightarrow>
   finished_events (fst (run L w t)) = [(False, ''git-not-found'')]"
  by (simp add: run_def)

lemma run_popen_raises:
  "mkdir_raises w = None \<Longrightarrow> popen w = Popen_raises m \<Longrightarrow>
   finished_events (fst (run L w t)) = [(False, m)]"
  by (simp add: run_def)

text \<open>
  What the window sees of a thread's end. After a \<^verbatim>\<open>run\<close> that emitted
  \<^verbatim>\<open>finished_signal\<close>, \<^verbatim>\<open>clone_finished\<close> has enabled the button again; after a \<^verbatim>\<open>run\<close>
  that ended in the exception of \<^verbatim>\<open>mkdir\<close> the window is as it was, the button still
  disabled.
\<close>

lemma deliver_frame [simp]:
  "live_threads (deliver fx s) = live_threads s"
  by (induction fx s rule: deliver.induct)
     (simp_all add: append_log_def clone_finished_def show_box_def Let_def)

lemma deliver_button:
  "clone_btn_enabled (deliver fx s) =
     (if finished_events fx = [] then clone_btn_enabled s else True)"
proof (induction fx s rule: deliver.induct)
  case (3 b i fx s)
  then show ?case
    by (simp add: clone_finished_def append_log_def show_box_def Let_def)
qed (simp_all add: append_log_def)

lemma thread_mkdir_failure:
  assumes "live_threads s = t # ts" and "mkdir_raises w = Some m"
  shows "thread_runs L w s = s\<lparr>live_threads := ts\<rparr>"
  using assms by (simp add: thread_runs_def run_mkdir_raises)

lemma thread_returns_enables_button:
  assumes "live_threads s = t # ts" and "mkdir_raises w = None"
    and "snd (run L w t) \<noteq> Blocks"
  shows "clone_btn_enabled (thread_runs L w s) \<and> live_threads (thread_runs L w s) = ts"
proof -
  from run_finished_once [OF assms(2,3)]
  have "finished_events (fst (run L w t)) \<noteq> []" by auto
  with assms(1,3) show ?thesis
    by (simp add: thread_runs_def deliver_button)
qed

text \<open>
  C1: every execution of \<^verbatim>\<open>run\<close> should deliver exactly one \<^verbatim>\<open>finished_signal\<close>. The
  \<^verbatim>\<open>mkdir\<close> of line 84 stands outside the \<^verbatim>\<open>try\<close>: when the parent of the destination
  cannot be created (here a component of the path is a regular file), \<^verbatim>\<open>run\<close> ends with
  the exception and no \<^verbatim>\<open>finished_signal\<close> has been emitted.
\<close>

theorem C1_mkdir_failure_emits_no_finished:
  "run demo_lib
     \<lparr>mkdir_raises = Some ''[Errno 20] Not a directory'',
      popen = Popen_started [Line ''Cloning into 'Test'...\<newline>''] (Exit_status 0)\<rparr>
     (CloneThread (JStr ''https://github.com/abhisheksainiofficial7060/testrepo.git'')
        ''/etc/hostname/ProjectA/Test'')
   = ([Mkdir ''/etc/hostname/ProjectA''],
      Raises ''[Errno 20] Not a directory'')
   \<and> finished_events
        (fst (run demo_lib
           \<lparr>mkdir_raises = Some ''[Errno 20] Not a directory'',
            popen = Popen_started [Line ''Cloning into 'Test'...\<newline>''] (Exit_status 0)\<rparr>
           (CloneThread (JStr ''https://github.com/abhisheksainiofficial7060/testrepo.git'')
              ''/etc/hostname/ProjectA/Test''))) = []"
  by (simp add: run_def CloneThread_def demo_lib_def)

lemma read_loop_lines:
  "read_loop False (map Line ls @ evs) e =
     (map (\<lambda>x. Log (rstrip x)) ls @ fst (read_loop False evs e), snd (read_loop False evs e))"
  by (induction ls) auto

lemma read_loop_stops:
  "read_loop stp (replicate n Stop_called @ evs) e = read_loop (stp \<or> n > 0) evs e"
  by (induction n arbitrary: stp) auto

text \<open>A \<^verbatim>\<open>stop()\<close> before the loop starts is seen at the first line.\<close>

lemma run_after_stop:
  assumes "mkdir_raises w = None" and "popen w = Popen_started (Line l # rest) e"
  shows "finished_events (fst (run L w (stop t))) = [(False, ''aborted'')]
         \<and> Kill \<in> set (fst (run L w (stop t)))"
  using assms by (simp add: run_def stop_def)

text \<open>
  C2 (as amended): \<^verbatim>\<open>stop()\<close> is called (once or more) on a running task after the lines
  \<open>ls\<close> have been read (none of them, when it is called before the process has produced
  any output). The flag is looked at only when a further line is read.
  \<^item> If a further line \<open>l\<close> is read, then at that line \<^verbatim>\<open>run\<close> kills the process, emits the
    log line ``Clone aborted by user.'' as its last one and \<^verbatim>\<open>finished_signal(False,
    "aborted")\<close>, and returns; the line \<open>l\<close> itself is not logged.
  \<^item> If the output ends instead, the process is not killed and \<^verbatim>\<open>run\<close> reports by the
    exit status: success for 0, \<^verbatim>\<open>exit N\<close> for any other status \<open>N\<close>.
  \<^item> If the next read raises, \<^verbatim>\<open>run\<close> reports that error.
  \<^item> If no further line ever comes, \<^verbatim>\<open>run\<close> blocks: nothing is killed or reported.
\<close>

theorem C2_stop_seen_at_next_line:
  assumes "\<not> stopped t"
    and "evs = map Line ls @ Stop_called # replicate n Stop_called"
    and "before =
           [Mkdir (parent L (dest t)),
            Log (''Starting clone: '' @ format_value L (url t) @ '' -> '' @ dest t
                 @ ''\<newline>''),
            Popen [JStr ''git'', JStr ''clone'', url t, JStr (dest t)]]
           @ map (\<lambda>x. Log (rstrip x)) ls"
  shows "run L \<lparr>mkdir_raises = None, popen = Popen_started (evs @ Line l # rest) e\<rparr> t =
           (before @ [Kill, Log ''Clone aborted by user.\<newline>'', Finished False ''aborted''],
            Returns)
         \<and> run L \<lparr>mkdir_raises = None, popen = Popen_started evs (Exit_status ret)\<rparr> t =
           (before @
            (if ret = 0
             then [Wait, Log ''Clone completed successfully.\<newline>'', Finished True ''success'']
             else [Wait, Log (''git exited with code '' @ str_int ret @ ''\<newline>''),
                   Finished False (''exit '' @ str_int ret)]),
            Returns)
         \<and> run L \<lparr>mkdir_raises = None,
                   popen = Popen_started (evs @ Read_raises m # rest) e\<rparr> t =
           (before @ [Log (''Unexpected error: '' @ m @ ''\<newline>''), Finished False m],
            Returns)
         \<and> run L \<lparr>mkdir_raises = None, popen = Popen_started evs Never_ends\<rparr> t =
           (before, Blocks)"
proof -
  have split: "read_loop False (evs @ tl) x =
                 (map (\<lambda>x. Log (rstrip x)) ls @ fst (read_loop True tl x),
                  snd (read_loop True tl x))" for tl x
    using read_loop_lines [of ls "Stop_called # replicate n Stop_called @ tl" x]
      read_loop_stops [of True n tl x]
    by (simp add: assms(2))
  have split0: "read_loop False evs x =
                 (map (\<lambda>x. Log (rstrip x)) ls @ fst (read_loop True [] x),
                  snd (read_loop True [] x))" for x
    using split [of "[]" x] by simp
  show ?thesis
    using assms(1)
    by (simp add: run_def split split0 assms(3))
qed

theorem C2_stop_seen_at_next_line_witness:
  "\<not> stopped
       (CloneThread (JStr ''https://github.com/abhisheksainiofficial7060/testrepo.git'')
          ''/home/user/cloned/ProjectA/Test'')
   \<and> run demo_lib
        \<lparr>mkdir_raises = None,
         popen = Popen_started
                   [Line ''Cloning into 'Test'...\<newline>'', Stop_called,
                    Line ''remote: Enumerating objects: 3, done.\<newline>''] Never_ends\<rparr>
        (CloneThread (JStr ''https://github.com/abhisheksainiofficial7060/testrepo.git'')
           ''/home/user/cloned/ProjectA/Test'')
      = ([Mkdir ''/home/user/cloned/ProjectA'',
          Log ''Starting clone: https://github.com/abhisheksainiofficial7060/testrepo.git -> /home/user/cloned/ProjectA/Test\<newline>'',
          Popen [JStr ''git'', JStr ''clone'',
                 JStr ''https://github.com/abhisheksainiofficial7060/testrepo.git'',
                 JStr ''/home/user/cloned/ProjectA/Test''],
          Log ''Cloning into 'Test'...'',
          Kill,
          Log ''Clone aborted by user.\<newline>'',
          Finished False ''aborted''],
         Returns)
   \<and> run demo_lib
        \<lparr>mkdir_raises = None,
         popen = Popen_started [Line ''Cloning into 'Test'...\<newline>'', Stop_called]
                   (Exit_status 128)\<rparr>
        (CloneThread (JStr ''https://github.com/abhisheksainiofficial7060/testrepo.git'')
           ''/home/user/cloned/ProjectA/Test'')
      = ([Mkdir ''/home/user/cloned/ProjectA'',
          Log ''Starting clone: https://github.com/abhisheksainiofficial7060/testrepo.git -> /home/user/cloned/ProjectA/Test\<newline>'',
          Popen [JStr ''git'', JStr ''clone'',
                 JStr ''https://github.com/abhisheksainiofficial7060/testrepo.git'',
                 JStr ''/home/user/cloned/ProjectA/Test''],
          Log ''Cloning into 'Test'...'',
          Wait,
          Log ''git exited with code 128\<newline>'',
          Finished False ''exit 128''],
         Returns)
   \<and> run demo_lib
        \<lparr>mkdir_raises = None,
         popen = Popen_started [Line ''Cloning into 'Test'...\<newline>'', Stop_called]
                   Never_ends\<rparr>
        (CloneThread (JStr ''https://github.com/abhisheksainiofficial7060/testrepo.git'')
           ''/home/user/cloned/ProjectA/Test'')
      = ([Mkdir ''/home/user/cloned/ProjectA'',
          Log ''Starting clone: https://github.com/abhisheksainiofficial7060/testrepo.git -> /home/user/cloned/ProjectA/Test\<newline>'',
          Popen [JStr ''git'', JStr ''clone'',
                 JStr ''https://github.com/abhisheksainiofficial7060/testrepo.git'',
                 JStr ''/home/user/cloned/ProjectA/Test''],
          Log ''Cloning into 'Test'...''],
         Blocks)"
proof -
  define t where
    "t = CloneThread (JStr ''https://github.com/abhisheksainiofficial7060/testrepo.git'')
           ''/home/user/cloned/ProjectA/Test''"
  have a: "\<not> stopped t"
    by (simp add: t_def CloneThread_def)
  have b: "[Line ''Cloning into 'Test'...\<newline>'', Stop_called]
             = map Line [''Cloning into 'Test'...\<newline>''] @ Stop_called # replicate 0 Stop_called"
    by simp
  have c: "[Mkdir ''/home/user/cloned/ProjectA'',
            Log ''Starting clone: https://github.com/abhisheksainiofficial7060/testrepo.git -> /home/user/cloned/ProjectA/Test\<newline>'',
            Popen [JStr ''git'', JStr ''clone'',
                   JStr ''https://github.com/abhisheksainiofficial7060/testrepo.git'',
                   JStr ''/home/user/cloned/ProjectA/Test''],
            Log ''Cloning into 'Test'...'']
           = [Mkdir (parent demo_lib (dest t)),
              Log (''Starting clone: '' @ format_value demo_lib (url t) @ '' -> '' @ dest t
                   @ ''\<newline>''),
              Popen [JStr ''git'', JStr ''clone'', url t, JStr (dest t)]]
             @ map (\<lambda>x. Log (rstrip x)) [''Cloning into 'Test'...\<newline>'']"
    by (simp add: t_def CloneThread_def demo_lib_def format_value_def rstrip_def isspace_def)
  have d: "str_int 128 = ''128''"
    by (simp add: str_int_def digits.simps)
  from C2_stop_seen_at_next_line [OF a b c,
      of "''remote: Enumerating objects: 3, done.\<newline>''" "[]" Never_ends 128] a d
  show ?thesis
    unfolding t_def by simp
qed

text \<open>
  \<^verbatim>\<open>stop()\<close> is called after the last line of output has been read; the output then ends
  and the process exits with status 0. The flag is never looked at again: the process is
  not killed, no ``aborted'' line is logged, and the task reports success.
\<close>

theorem C2_stop_after_last_line_counterexample:
  "run demo_lib
     \<lparr>mkdir_raises = None,
      popen = Popen_started [Line ''Cloning into 'Test'...\<newline>'', Stop_called]
                (Exit_status 0)\<rparr>
     (CloneThread (JStr ''https://github.com/abhisheksainiofficial7060/testrepo.git'')
        ''/home/user/cloned/ProjectA/Test'')
   = ([Mkdir ''/home/user/cloned/ProjectA'',
       Log ''Starting clone: https://github.com/abhisheksainiofficial7060/testrepo.git -> /home/user/cloned/ProjectA/Test\<newline>'',
       Popen [JStr ''git'', JStr ''clone'',
              JStr ''https://github.com/abhisheksainiofficial7060/testrepo.git'',
              JStr ''/home/user/cloned/ProjectA/Test''],
       Log ''Cloning into 'Test'...'',
       Wait,
       Log ''Clone completed successfully.\<newline>'',
       Finished True ''success''],
      Returns)"
  by (simp add: run_def CloneThread_def demo_lib_def format_value_def rstrip_def isspace_def)

subsection \<open>Dictionaries and well-shaped catalogs\<close>

lemma is_dict_of_JDict:
  "is_dict_of P (JDict kvs) = (distinct (map fst kvs) \<and> (\<forall>v \<in> snd ` set kvs. P v))"
  by (auto simp add: is_dict_of_def list_all_iff)

lemma is_dict_of_lookup:
  "is_dict_of P (JDict kvs) \<Longrightarrow> map_of kvs k = Some v \<Longrightarrow> P v"
  by (auto simp add: is_dict_of_JDict dest!: map_of_SomeD)

lemma set_update_subset: "set (AList.update k v al) \<subseteq> insert (k, v) (set al)"
  by (induction al) auto

lemma is_dict_of_update:
  "is_dict_of P (JDict kvs) \<Longrightarrow> P v \<Longrightarrow> is_dict_of P (JDict (AList.update k v kvs))"
  using set_update_subset [of k v kvs]
  by (auto simp add: is_dict_of_JDict AList.distinct_update)

lemma is_dict_of_empty: "is_dict_of P (JDict [])"
  by (simp add: is_dict_of_JDict)

lemma upsert_explicit:
  assumes "is_catalog (JDict cats)"
  shows "upsert_component (JDict cats) k p c u =
         Inr (JDict (AList.update k
               (JDict (AList.update p
                  (JDict (AList.update c (JStr u) (dict_at (dict_at cats k) p)))
                  (dict_at cats k))) cats))"
proof (cases "map_of cats k")
  case None
  then have "k \<notin> set (map fst cats)" by (simp add: map_of_eq_None_iff)
  with None show ?thesis
    by (simp add: upsert_component_def bind_def dict_at_def AList.update_conv')
next
  case (Some v)
  then have k: "k \<in> set (map fst cats)" by (metis map_of_eq_None_iff option.distinct(1) set_map)
  from assms Some have "is_dict_of (is_dict_of is_url) v"
    unfolding is_catalog_def by (rule is_dict_of_lookup)
  then obtain ps where v: "v = JDict ps" and ps: "is_dict_of (is_dict_of is_url) (JDict ps)"
    by (cases v) (simp_all add: is_dict_of_def)
  show ?thesis
  proof (cases "map_of ps p")
    case None
    then have "p \<notin> set (map fst ps)" by (simp add: map_of_eq_None_iff)
    with None Some k v show ?thesis
      by (simp add: upsert_component_def bind_def dict_at_def AList.update_conv')
  next
    case (Some w)
    then have p: "p \<in> set (map fst ps)" by (metis map_of_eq_None_iff option.distinct(1) set_map)
    from ps Some have "is_dict_of is_url w" by (rule is_dict_of_lookup)
    then obtain cs where w: "w = JDict cs" by (cases w) (simp_all add: is_dict_of_def)
    from Some \<open>map_of cats k = Some v\<close> k p v w show ?thesis
      by (simp add: upsert_component_def bind_def dict_at_def AList.update_conv')
  qed
qed

lemma dict_at_update:
  "dict_at (AList.update k (JDict ps) cats) k' = (if k' = k then ps else dict_at cats k')"
  by (simp add: dict_at_def AList.update_conv')

lemma dict_at_Nil [simp]: "dict_at [] k = []"
  by (simp add: dict_at_def)

lemma lookup_url_catalog:
  assumes "is_catalog (JDict cats)"
  shows "lookup_url (JDict cats) k p c =
           (case map_of (dict_at (dict_at cats k) p) c of
              None \<Rightarrow> Inl KeyError | Some x \<Rightarrow> Inr x)"
proof (cases "map_of cats k")
  case None
  then show ?thesis by (simp add: lookup_url_def bind_def dict_at_def)
next
  case (Some v)
  from assms Some have "is_dict_of (is_dict_of is_url) v"
    unfolding is_catalog_def by (rule is_dict_of_lookup)
  then obtain ps where v: "v = JDict ps" and ps: "is_dict_of (is_dict_of is_url) (JDict ps)"
    by (cases v) (simp_all add: is_dict_of_def)
  show ?thesis
  proof (cases "map_of ps p")
    case None
    with \<open>map_of cats k = Some v\<close> v show ?thesis
      by (simp add: lookup_url_def bind_def dict_at_def)
  next
    case (Some w)
    from ps Some have "is_dict_of is_url w" by (rule is_dict_of_lookup)
    then obtain cs where w: "w = JDict cs" by (cases w) (simp_all add: is_dict_of_def)
    from Some \<open>map_of cats k = Some v\<close> v w show ?thesis
      by (simp add: lookup_url_def bind_def dict_at_def)
  qed
qed

lemma component_names_catalog:
  assumes "map_of cats k = Some (JDict ps)" and "map_of ps p = Some (JDict cs)"
  shows "component_names (JDict cats) k p = Inr (map fst cs)"
  using assms by (simp add: component_names_def bind_def)

lemma is_dict_of_dict_at:
  assumes "is_dict_of (is_dict_of P) (JDict kvs)"
  shows "is_dict_of P (JDict (dict_at kvs k))"
proof (cases "map_of kvs k")
  case None
  then show ?thesis by (simp add: dict_at_def is_dict_of_empty)
next
  case (Some v)
  from assms Some have "is_dict_of P v" by (rule is_dict_of_lookup)
  with Some show ?thesis
    by (cases v) (simp_all add: dict_at_def is_dict_of_def)
qed

lemma count_list_distinct: "distinct xs \<Longrightarrow> x \<in> set xs \<Longrightarrow> count_list xs x = 1"
  by (induction xs) auto

lemma update_key_in: "k \<in> set (map fst (AList.update k v al))"
  by (induction al) auto

lemma is_catalog_SAMPLE_CONFIG: "is_catalog SAMPLE_CONFIG"
  by (simp add: is_catalog_def is_dict_of_def is_url_def SAMPLE_CONFIG_def)

subsection \<open>Adding a component\<close>

text \<open>
  Lines 467 to 476 on a well-shaped catalog: they succeed and leave a well-shaped catalog
  \<open>R'\<close> in which \<open>R'[k][p][c]\<close> is the given URL (the category and the project are created
  when absent); every other path reads as before; the project has exactly one component
  named \<open>c\<close>; and a following upsert of the same path with any URL gives what that
  upsert gives on the original catalog.
\<close>

lemma upsert_component_catalog:
  assumes "is_catalog R"
  shows "\<exists>R' ks. upsert_component R k p c u = Inr R'
           \<and> is_catalog R'
           \<and> lookup_url R' k p c = Inr (JStr u)
           \<and> (\<forall>k' p' c'. (k', p', c') \<noteq> (k, p, c) \<longrightarrow>
                 lookup_url R' k' p' c' = lookup_url R k' p' c')
           \<and> component_names R' k p = Inr ks \<and> count_list ks c = 1
           \<and> (\<forall>u2. upsert_component R' k p c u2 = upsert_component R k p c u2)"
proof -
  from assms obtain cats where R: "R = JDict cats"
    by (cases R) (simp_all add: is_catalog_def is_dict_of_def)
  define ps where "ps = dict_at cats k"
  define cs where "cs = dict_at ps p"
  define cs' where "cs' = AList.update c (JStr u) cs"
  define ps' where "ps' = AList.update p (JDict cs') ps"
  define cats' where "cats' = AList.update k (JDict ps') cats"
  have cat: "is_catalog (JDict cats)" using assms R by simp
  have up: "upsert_component R k p c u = Inr (JDict cats')"
    using upsert_explicit [OF cat, of k p c u]
    by (simp add: R ps_def cs_def cs'_def ps'_def cats'_def)
  have ps_ok: "is_dict_of (is_dict_of is_url) (JDict ps)"
    unfolding ps_def using cat [unfolded is_catalog_def] by (rule is_dict_of_dict_at)
  have cs_ok: "is_dict_of is_url (JDict cs)"
    unfolding cs_def using ps_ok by (rule is_dict_of_dict_at)
  have cs'_ok: "is_dict_of is_url (JDict cs')"
    unfolding cs'_def using cs_ok by (rule is_dict_of_update) (simp add: is_url_def)
  have ps'_ok: "is_dict_of (is_dict_of is_url) (JDict ps')"
    unfolding ps'_def using ps_ok cs'_ok by (rule is_dict_of_update)
  have cat': "is_catalog (JDict cats')"
    unfolding cats'_def is_catalog_def
    using cat [unfolded is_catalog_def] ps'_ok by (rule is_dict_of_update)
  have at_k: "dict_at cats' k' = (if k' = k then ps' else dict_at cats k')" for k'
    by (simp add: cats'_def dict_at_update)
  have at_p: "dict_at ps' p' = (if p' = p then cs' else dict_at ps p')" for p'
    by (simp add: ps'_def dict_at_update)
  have look: "lookup_url (JDict cats') k p c = Inr (JStr u)"
    by (simp add: lookup_url_catalog [OF cat'] at_k at_p cs'_def AList.update_conv')
  have frame: "lookup_url (JDict cats') k' p' c' = lookup_url (JDict cats) k' p' c'"
    if "(k', p', c') \<noteq> (k, p, c)" for k' p' c'
    using that
    by (auto simp add: lookup_url_catalog [OF cat'] lookup_url_catalog [OF cat] at_k at_p
        cs'_def cs_def ps_def AList.update_conv')
  have names: "component_names (JDict cats') k p = Inr (map fst cs')"
  proof (rule component_names_catalog)
    show "map_of cats' k = Some (JDict ps')" by (simp add: cats'_def AList.update_conv')
    show "map_of ps' p = Some (JDict cs')" by (simp add: ps'_def AList.update_conv')
  qed
  have "distinct (map fst cs')" using cs'_ok by (simp add: is_dict_of_JDict)
  moreover have "c \<in> set (map fst cs')" unfolding cs'_def by (rule update_key_in)
  ultimately have one: "count_list (map fst cs') c = 1" by (rule count_list_distinct)
  have again:
    "upsert_component (JDict cats') k p c u2 = upsert_component (JDict cats) k p c u2" for u2
  proof -
  have "upsert_component (JDict cats') k p c u2 =
          Inr (JDict (AList.update k (JDict (AList.update p
                 (JDict (AList.update c (JStr u2) cs')) ps')) cats'))"
    by (simp add: upsert_explicit [OF cat'] at_k at_p)
  also have "\<dots> = Inr (JDict (AList.update k (JDict (AList.update p
                 (JDict (AList.update c (JStr u2) cs)) ps)) cats))"
    by (simp add: cs'_def ps'_def cats'_def)
  also have "\<dots> = upsert_component (JDict cats) k p c u2"
    by (simp add: upsert_explicit [OF cat] cs_def ps_def)
  finally show ?thesis .
  qed
  from up cat' look frame names one again show ?thesis
    unfolding R by blast
qed

lemma repos_value_set [simp]: "repos_value (set_repos_value R s) = R"
  by (simp add: repos_value_def set_repos_value_def split: catalog_ref.splits)

lemma repos_value_show_box [simp]: "repos_value (show_box i a b s) = repos_value s"
  by (simp add: repos_value_def show_box_def split: catalog_ref.splits)

text \<open>
  C6 (as amended): \<^verbatim>\<open>save_new_project\<close> on a well-shaped catalog \<open>R\<close>.
  \<^item> If the project, the component or the URL is empty, it shows the warning ``Please fill
    all fields.'' and does nothing else: the catalog is unchanged.
  \<^item> If all three are non-empty, lines 467 to 476 replace \<^verbatim>\<open>self.repos\<close> by a well-shaped
    catalog \<open>R'\<close> before anything is written: the category and the project are created when
    absent, \<open>R'[k][p][c]\<close> is the URL, every other path reads as before, and the project has
    exactly one component named \<open>c\<close>.
  \<^item> A second call for the same path with a non-empty URL \<open>u2\<close>, on any state that holds
    \<open>R'\<close>, leaves the catalog that this call leaves on \<open>R\<close>, with \<open>u2\<close> at the path and still
    exactly one component named \<open>c\<close>: the last write wins.
\<close>

theorem C6_save_new_project_upserts:
  assumes "is_catalog (repos_value s)"
  shows "(p = [] \<or> c = [] \<or> u = [] \<longrightarrow>
            save_new_project L k p c u s
              = Inr (show_box Warning ''Validation'' ''Please fill all fields.'' s)
            \<and> repos_value (show_box Warning ''Validation'' ''Please fill all fields.'' s)
              = repos_value s)
         \<and> (p \<noteq> [] \<and> c \<noteq> [] \<and> u \<noteq> [] \<longrightarrow>
              (\<exists>R' ks.
                 upsert_component (repos_value s) k p c u = Inr R'
                 \<and> save_new_project L k p c u s = write_back L k p c (set_repos_value R' s)
                 \<and> repos_value (set_repos_value R' s) = R'
                 \<and> is_catalog R'
                 \<and> lookup_url R' k p c = Inr (JStr u)
                 \<and> (\<forall>k' p' c'. (k', p', c') \<noteq> (k, p, c) \<longrightarrow>
                       lookup_url R' k' p' c' = lookup_url (repos_value s) k' p' c')
                 \<and> component_names R' k p = Inr ks \<and> count_list ks c = 1
                 \<and> (\<forall>s1 u2. repos_value s1 = R' \<and> u2 \<noteq> [] \<longrightarrow>
                       (\<exists>R'' ks2.
                          upsert_component (repos_value s) k p c u2 = Inr R''
                          \<and> save_new_project L k p c u2 s1
                              = write_back L k p c (set_repos_value R'' s1)
                          \<and> lookup_url R'' k p c = Inr (JStr u2)
                          \<and> component_names R'' k p = Inr ks2 \<and> count_list ks2 c = 1))))"
proof (intro conjI impI)
  assume "p = [] \<or> c = [] \<or> u = []"
  then show "save_new_project L k p c u s
               = Inr (show_box Warning ''Validation'' ''Please fill all fields.'' s)"
    by (auto simp add: save_new_project_def)
next
  show "repos_value (show_box Warning ''Validation'' ''Please fill all fields.'' s)
          = repos_value s"
    by simp
next
  assume filled: "p \<noteq> [] \<and> c \<noteq> [] \<and> u \<noteq> []"
  from upsert_component_catalog [OF assms, of k p c u] obtain R' ks where
    up: "upsert_component (repos_value s) k p c u = Inr R'"
    and cat': "is_catalog R'"
    and look: "lookup_url R' k p c = Inr (JStr u)"
    and frame: "\<forall>k' p' c'. (k', p', c') \<noteq> (k, p, c) \<longrightarrow>
                  lookup_url R' k' p' c' = lookup_url (repos_value s) k' p' c'"
    and names: "component_names R' k p = Inr ks" and one: "count_list ks c = 1"
    and again: "\<forall>u2. upsert_component R' k p c u2 = upsert_component (repos_value s) k p c u2"
    by blast
  have save: "save_new_project L k p c u s = write_back L k p c (set_repos_value R' s)"
    using filled up by (simp add: save_new_project_def bind_def)
  have second: "\<exists>R'' ks2.
                  upsert_component (repos_value s) k p c u2 = Inr R''
                  \<and> save_new_project L k p c u2 s1 = write_back L k p c (set_repos_value R'' s1)
                  \<and> lookup_url R'' k p c = Inr (JStr u2)
                  \<and> component_names R'' k p = Inr ks2 \<and> count_list ks2 c = 1"
    if "repos_value s1 = R' \<and> u2 \<noteq> []" for s1 u2
  proof -
    from upsert_component_catalog [OF cat', of k p c u2] obtain R'' ks2 where
      up2: "upsert_component R' k p c u2 = Inr R''"
      and look2: "lookup_url R'' k p c = Inr (JStr u2)"
      and names2: "component_names R'' k p = Inr ks2" and one2: "count_list ks2 c = 1"
      by blast
    from up2 have up2': "upsert_component (repos_value s) k p c u2 = Inr R''"
      by (simp only: again [rule_format])
    have save2: "save_new_project L k p c u2 s1 = write_back L k p c (set_repos_value R'' s1)"
      using filled that up2 by (simp add: save_new_project_def bind_def)
    show ?thesis
      by (insert up2' save2 look2 names2 one2, rule exI [of _ R''], rule exI [of _ ks2],
          intro conjI)
  qed
  have stored: "repos_value (set_repos_value R' s) = R'"
    by simp
  have later: "\<forall>s1 u2. repos_value s1 = R' \<and> u2 \<noteq> [] \<longrightarrow>
                (\<exists>R'' ks2.
                   upsert_component (repos_value s) k p c u2 = Inr R''
                   \<and> save_new_project L k p c u2 s1
                       = write_back L k p c (set_repos_value R'' s1)
                   \<and> lookup_url R'' k p c = Inr (JStr u2)
                   \<and> component_names R'' k p = Inr ks2 \<and> count_list ks2 c = 1)"
    by (intro allI impI, rule second, assumption)
  show "\<exists>R' ks.
          upsert_component (repos_value s) k p c u = Inr R'
          \<and> save_new_project L k p c u s = write_back L k p c (set_repos_value R' s)
          \<and> repos_value (set_repos_value R' s) = R'
          \<and> is_catalog R'
          \<and> lookup_url R' k p c = Inr (JStr u)
          \<and> (\<forall>k' p' c'. (k', p', c') \<noteq> (k, p, c) \<longrightarrow>
                lookup_url R' k' p' c' = lookup_url (repos_value s) k' p' c')
          \<and> component_names R' k p = Inr ks \<and> count_list ks c = 1
          \<and> (\<forall>s1 u2. repos_value s1 = R' \<and> u2 \<noteq> [] \<longrightarrow>
                (\<exists>R'' ks2.
                   upsert_component (repos_value s) k p c u2 = Inr R''
                   \<and> save_new_project L k p c u2 s1
                       = write_back L k p c (set_repos_value R'' s1)
                   \<and> lookup_url R'' k p c = Inr (JStr u2)
                   \<and> component_names R'' k p = Inr ks2 \<and> count_list ks2 c = 1))"
    by (insert up save stored cat' look frame names one later, rule exI [of _ R'],
        rule exI [of _ ks], intro conjI)
qed

theorem C6_save_new_project_upserts_witness:
  "is_catalog (repos_value demo_app)
   \<and> save_new_project demo_lib ''dev'' ''P'' '''' ''u1'' demo_app
       = Inr (show_box Warning ''Validation'' ''Please fill all fields.'' demo_app)
   \<and> (\<exists>R'. upsert_component (repos_value demo_app) ''dev'' ''P'' ''C'' ''u1'' = Inr R'
          \<and> save_new_project demo_lib ''dev'' ''P'' ''C'' ''u1'' demo_app
              = write_back demo_lib ''dev'' ''P'' ''C'' (set_repos_value R' demo_app)
          \<and> is_catalog R'
          \<and> lookup_url R' ''dev'' ''P'' ''C'' = Inr (JStr ''u1'')
          \<and> lookup_url R' ''dev'' ''ProjectA'' ''Test''
              = lookup_url (repos_value demo_app) ''dev'' ''ProjectA'' ''Test''
          \<and> component_names R' ''dev'' ''P'' = Inr [''C'']
          \<and> (\<exists>R''. upsert_component (repos_value demo_app) ''dev'' ''P'' ''C'' ''u2'' = Inr R''
                 \<and> save_new_project demo_lib ''dev'' ''P'' ''C'' ''u2''
                      (set_repos_value R' demo_app)
                     = write_back demo_lib ''dev'' ''P'' ''C''
                         (set_repos_value R'' (set_repos_value R' demo_app))
                 \<and> lookup_url R'' ''dev'' ''P'' ''C'' = Inr (JStr ''u2'')
                 \<and> component_names R'' ''dev'' ''P'' = Inr [''C'']))"
proof -
  have rv: "repos_value demo_app = SAMPLE_CONFIG"
    by (simp add: demo_app_def repos_value_def)
  have cat: "is_catalog (repos_value demo_app)"
    by (simp add: rv is_catalog_SAMPLE_CONFIG)
  note inst = C6_save_new_project_upserts [OF cat]
  have "''P'' = [] \<or> '''' = [] \<or> ''u1'' = []" by simp
  from inst [of "''P''" "[]" "''u1''" demo_lib "''dev''", THEN conjunct1, rule_format, OF this]
  have warn: "save_new_project demo_lib ''dev'' ''P'' '''' ''u1'' demo_app
                = Inr (show_box Warning ''Validation'' ''Please fill all fields.'' demo_app)"
    by (rule conjunct1)
  have "''P'' \<noteq> [] \<and> ''C'' \<noteq> [] \<and> ''u1'' \<noteq> []" by simp
  from inst [of "''P''" "''C''" "''u1''" demo_lib "''dev''", THEN conjunct2, rule_format, OF this]
  obtain R' ks where
    up: "upsert_component (repos_value demo_app) ''dev'' ''P'' ''C'' ''u1'' = Inr R'"
    and save: "save_new_project demo_lib ''dev'' ''P'' ''C'' ''u1'' demo_app
                 = write_back demo_lib ''dev'' ''P'' ''C'' (set_repos_value R' demo_app)"
    and cat': "is_catalog R'"
    and look: "lookup_url R' ''dev'' ''P'' ''C'' = Inr (JStr ''u1'')"
    and frame: "\<forall>k' p' c'. (k', p', c') \<noteq> (''dev'', ''P'', ''C'') \<longrightarrow>
                  lookup_url R' k' p' c' = lookup_url (repos_value demo_app) k' p' c'"
    and names0: "component_names R' ''dev'' ''P'' = Inr ks"
    and second: "\<forall>s1 u2. repos_value s1 = R' \<and> u2 \<noteq> [] \<longrightarrow>
                   (\<exists>R'' ks2.
                      upsert_component (repos_value demo_app) ''dev'' ''P'' ''C'' u2 = Inr R''
                      \<and> save_new_project demo_lib ''dev'' ''P'' ''C'' u2 s1
                          = write_back demo_lib ''dev'' ''P'' ''C'' (set_repos_value R'' s1)
                      \<and> lookup_url R'' ''dev'' ''P'' ''C'' = Inr (JStr u2)
                      \<and> component_names R'' ''dev'' ''P'' = Inr ks2
                      \<and> count_list ks2 ''C'' = 1)"
    by blast
  from frame have frame': "lookup_url R' ''dev'' ''ProjectA'' ''Test''
              = lookup_url (repos_value demo_app) ''dev'' ''ProjectA'' ''Test''"
    by simp
  have upd: "upsert_component SAMPLE_CONFIG ''dev'' ''P'' ''C'' v = Inr (JDict
      [(''dev'',
        JDict
         [(''ProjectA'',
           JDict
            [(''Test'', JStr ''https://github.com/abhisheksainiofficial7060/testrepo.git''),
             (''Component2'', JStr ''https://github.com/user/projectA-component2.git'')]),
          (''ProjectB'',
           JDict [(''Component1'', JStr ''https://github.com/user/projectB-component1.git'')]),
          (''P'', JDict [(''C'', JStr v)])]),
       (''localization'',
        JDict
         [(''ProjectA'',
           JDict
            [(''ui'', JStr ''https://github.com/user/localization-projectA-ui.git''),
             (''strings'',
              JStr ''https://github.com/user/localization-projectA-strings.git'')])])])" for v
    by (simp add: upsert_component_def bind_def SAMPLE_CONFIG_def)
  from up have names: "component_names R' ''dev'' ''P'' = Inr [''C'']"
    unfolding rv upd by (auto simp add: component_names_def bind_def)
  have "repos_value (set_repos_value R' demo_app) = R' \<and> ''u2'' \<noteq> []" by simp
  from second [rule_format, OF this] obtain R'' ks2 where
    up2: "upsert_component (repos_value demo_app) ''dev'' ''P'' ''C'' ''u2'' = Inr R''"
    and save2: "save_new_project demo_lib ''dev'' ''P'' ''C'' ''u2'' (set_repos_value R' demo_app)
                  = write_back demo_lib ''dev'' ''P'' ''C''
                      (set_repos_value R'' (set_repos_value R' demo_app))"
    and look2: "lookup_url R'' ''dev'' ''P'' ''C'' = Inr (JStr ''u2'')"
    and names20: "component_names R'' ''dev'' ''P'' = Inr ks2"
    by blast
  from up2 have names2: "component_names R'' ''dev'' ''P'' = Inr [''C'']"
    unfolding rv upd by (auto simp add: component_names_def bind_def)
  have snd: "\<exists>R''. upsert_component (repos_value demo_app) ''dev'' ''P'' ''C'' ''u2'' = Inr R''
                 \<and> save_new_project demo_lib ''dev'' ''P'' ''C'' ''u2''
                      (set_repos_value R' demo_app)
                     = write_back demo_lib ''dev'' ''P'' ''C''
                         (set_repos_value R'' (set_repos_value R' demo_app))
                 \<and> lookup_url R'' ''dev'' ''P'' ''C'' = Inr (JStr ''u2'')
                 \<and> component_names R'' ''dev'' ''P'' = Inr [''C'']"
    by (insert up2 save2 look2 names2, rule exI [of _ R''], intro conjI)
  have main: "\<exists>R'. upsert_component (repos_value demo_app) ''dev'' ''P'' ''C'' ''u1'' = Inr R'
          \<and> save_new_project demo_lib ''dev'' ''P'' ''C'' ''u1'' demo_app
              = write_back demo_lib ''dev'' ''P'' ''C'' (set_repos_value R' demo_app)
          \<and> is_catalog R'
          \<and> lookup_url R' ''dev'' ''P'' ''C'' = Inr (JStr ''u1'')
          \<and> lookup_url R' ''dev'' ''ProjectA'' ''Test''
              = lookup_url (repos_value demo_app) ''dev'' ''ProjectA'' ''Test''
          \<and> component_names R' ''dev'' ''P'' = Inr [''C'']
          \<and> (\<exists>R''. upsert_component (repos_value demo_app) ''dev'' ''P'' ''C'' ''u2'' = Inr R''
                 \<and> save_new_project demo_lib ''dev'' ''P'' ''C'' ''u2''
                      (set_repos_value R' demo_app)
                     = write_back demo_lib ''dev'' ''P'' ''C''
                         (set_repos_value R'' (set_repos_value R' demo_app))
                 \<and> lookup_url R'' ''dev'' ''P'' ''C'' = Inr (JStr ''u2'')
                 \<and> component_names R'' ''dev'' ''P'' = Inr [''C''])"
    by (insert up save cat' look frame' names snd, rule exI [of _ R'], intro conjI)
  show ?thesis
    by (insert cat warn main, intro conjI)
qed

text \<open>
  With an empty project name, an empty component name or an empty URL the handler warns and
  returns: the path is not in the catalog afterwards.
\<close>

theorem C6_empty_field_counterexample:
  "save_new_project demo_lib ''dev'' '''' ''C'' ''u'' demo_app
     = Inr (show_box Warning ''Validation'' ''Please fill all fields.'' demo_app)
   \<and> lookup_url (repos_value (show_box Warning ''Validation'' ''Please fill all fields.'' demo_app))
        ''dev'' '''' ''C'' = Inl KeyError
   \<and> save_new_project demo_lib ''dev'' ''P'' '''' ''u'' demo_app
     = Inr (show_box Warning ''Validation'' ''Please fill all fields.'' demo_app)
   \<and> lookup_url (repos_value (show_box Warning ''Validation'' ''Please fill all fields.'' demo_app))
        ''dev'' ''P'' '''' = Inl KeyError
   \<and> save_new_project demo_lib ''dev'' ''P'' ''C'' '''' demo_app
     = Inr (show_box Warning ''Validation'' ''Please fill all fields.'' demo_app)
   \<and> lookup_url (repos_value (show_box Warning ''Validation'' ''Please fill all fields.'' demo_app))
        ''dev'' ''P'' ''C'' = Inl KeyError"
  by (simp add: save_new_project_def show_box_def repos_value_def demo_app_def
      SAMPLE_CONFIG_def lookup_url_def bind_def)

lemma upsert_component_lookup:
  assumes "is_catalog R"
  shows "\<exists>R'. upsert_component R k p c u = Inr R' \<and> is_catalog R'
              \<and> lookup_url R' k p c = Inr (JStr u)"
proof -
  from assms obtain cats where R: "R = JDict cats"
    by (cases R) (simp_all add: is_catalog_def is_dict_of_def)
  define cs' where "cs' = AList.update c (JStr u) (dict_at (dict_at cats k) p)"
  define ps' where "ps' = AList.update p (JDict cs') (dict_at cats k)"
  define cats' where "cats' = AList.update k (JDict ps') cats"
  have cat: "is_catalog (JDict cats)" using assms R by simp
  have up: "upsert_component R k p c u = Inr (JDict cats')"
    using upsert_explicit [OF cat, of k p c u] by (simp add: R cs'_def ps'_def cats'_def)
  have ps_ok: "is_dict_of (is_dict_of is_url) (JDict (dict_at cats k))"
    using cat [unfolded is_catalog_def] by (rule is_dict_of_dict_at)
  have cs_ok: "is_dict_of is_url (JDict (dict_at (dict_at cats k) p))"
    using ps_ok by (rule is_dict_of_dict_at)
  have cs'_ok: "is_dict_of is_url (JDict cs')"
    unfolding cs'_def using cs_ok by (rule is_dict_of_update) (simp add: is_url_def)
  have ps'_ok: "is_dict_of (is_dict_of is_url) (JDict ps')"
    unfolding ps'_def using ps_ok cs'_ok by (rule is_dict_of_update)
  have cat': "is_catalog (JDict cats')"
    unfolding cats'_def is_catalog_def
    using cat [unfolded is_catalog_def] ps'_ok by (rule is_dict_of_update)
  have "lookup_url (JDict cats') k p c = Inr (JStr u)"
    by (simp add: lookup_url_def bind_def cats'_def ps'_def cs'_def AList.update_conv')
  with up cat' show ?thesis by blast
qed

text \<open>
  While \<^verbatim>\<open>self.repos\<close> is the object \<^verbatim>\<open>SAMPLE_CONFIG\<close>, an upsert changes that object.
\<close>

lemma upsert_through_alias:
  "repos s = The_SAMPLE_CONFIG \<Longrightarrow> sample_config (set_repos_value R s) = R"
  by (simp add: set_repos_value_def)

lemma set_repos_value_fields [simp]:
  "config_write_error (set_repos_value R s) = config_write_error s"
  "config_file (set_repos_value R s) = config_file s"
  "message_boxes (set_repos_value R s) = message_boxes s"
  "add_dialog_open (set_repos_value R s) = add_dialog_open s"
  by (simp_all add: set_repos_value_def split: catalog_ref.splits)

text \<open>
  C7: all fields are filled, the catalog is well-shaped, and opening \<^verbatim>\<open>repos.json\<close> for
  writing raises with message \<open>m\<close>. Then \<^verbatim>\<open>save_new_project\<close> returns after showing the
  critical box ``Error'' with that message; \<^verbatim>\<open>self.repos\<close> holds the upserted catalog, in
  which the new component has the given URL; the file is as before and the dialog stays
  open.
\<close>

theorem C7_write_failure_keeps_change:
  assumes "project_name \<noteq> []" and "component_name \<noteq> []" and "repo_url \<noteq> []"
    and "is_catalog (repos_value s)"
    and "config_write_error s = Some m"
  shows "\<exists>s'. save_new_project L repo_type project_name component_name repo_url s = Inr s'
           \<and> message_boxes s' = message_boxes s @
                 [MessageBox Critical ''Error'' (''Failed to write repos.json: '' @ m)]
           \<and> upsert_component (repos_value s) repo_type project_name component_name repo_url
                 = Inr (repos_value s')
           \<and> lookup_url (repos_value s') repo_type project_name component_name
                 = Inr (JStr repo_url)
           \<and> config_file s' = config_file s
           \<and> add_dialog_open s' = add_dialog_open s"
proof -
  from assms(4) obtain R' where
    up: "upsert_component (repos_value s) repo_type project_name component_name repo_url = Inr R'"
    and look: "lookup_url R' repo_type project_name component_name = Inr (JStr repo_url)"
    using upsert_component_lookup by blast
  have "save_new_project L repo_type project_name component_name repo_url s =
          Inr (show_box Critical ''Error'' (''Failed to write repos.json: '' @ m)
                 (set_repos_value R' s))"
    using assms(1,2,3,5) up by (simp add: save_new_project_def write_back_def bind_def)
  moreover have "repos_value (show_box Critical ''Error'' (''Failed to write repos.json: '' @ m)
                 (set_repos_value R' s)) = R'"
    by (simp add: show_box_def repos_value_def set_repos_value_def split: catalog_ref.splits)
  ultimately show ?thesis
    using up look by (simp add: show_box_def)
qed

theorem C7_write_failure_keeps_change_witness:
  "''ProjectC'' \<noteq> [] \<and> ''Core'' \<noteq> [] \<and> ''https://github.com/user/projectC-core.git'' \<noteq> []
   \<and> is_catalog (repos_value (demo_app\<lparr>config_write_error := Some ''[Errno 13] Permission denied''\<rparr>))
   \<and> config_write_error (demo_app\<lparr>config_write_error := Some ''[Errno 13] Permission denied''\<rparr>)
       = Some ''[Errno 13] Permission denied''
   \<and> (\<exists>s'. save_new_project demo_lib ''dev'' ''ProjectC'' ''Core''
               ''https://github.com/user/projectC-core.git''
               (demo_app\<lparr>config_write_error := Some ''[Errno 13] Permission denied''\<rparr>)
             = Inr s'
          \<and> message_boxes s' = message_boxes demo_app @
                [MessageBox Critical ''Error''
                   ''Failed to write repos.json: [Errno 13] Permission denied'']
          \<and> lookup_url (repos_value s') ''dev'' ''ProjectC'' ''Core''
                = Inr (JStr ''https://github.com/user/projectC-core.git'')
          \<and> config_file s' = config_file demo_app)"
proof -
  define s where
    "s = demo_app\<lparr>config_write_error := Some ''[Errno 13] Permission denied''\<rparr>"
  have a: "''ProjectC'' \<noteq> []" and b: "''Core'' \<noteq> []"
    and c: "''https://github.com/user/projectC-core.git'' \<noteq> []"
    by simp_all
  have d: "is_catalog (repos_value s)"
    by (simp add: s_def demo_app_def repos_value_def is_catalog_SAMPLE_CONFIG)
  have e: "config_write_error s = Some ''[Errno 13] Permission denied''"
    by (simp add: s_def)
  from C7_write_failure_keeps_change [OF a b c d e, of demo_lib "''dev''"] d e
  show ?thesis unfolding s_def by auto
qed

subsection \<open>The selection lists\<close>

lemma repos_value_frame [simp]:
  "repos_value (s\<lparr>component_combo := cc\<rparr>) = repos_value s"
  "repos_value (s\<lparr>project_combo := pc\<rparr>) = repos_value s"
  "repos_value (s\<lparr>cat_combo := kc\<rparr>) = repos_value s"
  by (simp_all add: repos_value_def split: catalog_ref.splits)

lemma is_catalog_JDictE:
  assumes "is_catalog R"
  obtains cats where "R = JDict cats"
  using assms by (cases R) (simp_all add: is_catalog_def is_dict_of_def)

lemma catalog_getitem:
  assumes "is_catalog (JDict cats)" and "k \<in> set (map fst cats)"
  shows "\<exists>ps. map_of cats k = Some (JDict ps) \<and> is_dict_of (is_dict_of is_url) (JDict ps)"
proof -
  from assms(2) obtain v where v: "map_of cats k = Some v"
    by (metis map_of_eq_None_iff not_Some_eq set_map)
  from assms(1) v have "is_dict_of (is_dict_of is_url) v"
    unfolding is_catalog_def by (rule is_dict_of_lookup)
  with v show ?thesis by (cases v) (simp_all add: is_dict_of_def)
qed

lemma projects_getitem:
  assumes "is_dict_of (is_dict_of is_url) (JDict ps)" and "p \<in> set (map fst ps)"
  shows "\<exists>cs. map_of ps p = Some (JDict cs)"
proof -
  from assms(2) obtain v where v: "map_of ps p = Some v"
    by (metis map_of_eq_None_iff not_Some_eq set_map)
  from assms(1) v have "is_dict_of is_url v" by (rule is_dict_of_lookup)
  with v show ?thesis by (cases v) (simp_all add: is_dict_of_def)
qed

lemma on_project_change_frame:
  assumes "is_catalog (repos_value s)"
  shows "\<exists>cc. on_project_change text s = (None, s\<lparr>component_combo := cc\<rparr>)"
proof -
  from assms obtain cats where R: "repos_value s = JDict cats" by (rule is_catalog_JDictE)
  have R1: "repos_value (s\<lparr>component_combo := x\<rparr>) = JDict cats" for x
    using R by simp
  have cat: "is_catalog (JDict cats)" using assms R by simp
  show ?thesis
  proof (cases "currentText (cat_combo s) \<noteq> [] \<and> text \<noteq> []
                \<and> currentText (cat_combo s) \<in> set (map fst cats)")
    case False
    then show ?thesis
      by (auto simp add: on_project_change_def Let_def bind_def R)
  next
    case True
    then obtain ps where ps: "map_of cats (currentText (cat_combo s)) = Some (JDict ps)"
      and ps_ok: "is_dict_of (is_dict_of is_url) (JDict ps)"
      using catalog_getitem [OF cat] by blast
    show ?thesis
    proof (cases "text \<in> set (map fst ps)")
      case False
      with True ps show ?thesis
        by (auto simp add: on_project_change_def Let_def bind_def R)
    next
      case in_ps: True
      then obtain cs where "map_of ps text = Some (JDict cs)"
        using projects_getitem [OF ps_ok] by blast
      with True ps in_ps show ?thesis
        by (auto simp add: on_project_change_def Let_def bind_def R)
    qed
  qed
qed

lemma component_names_InrD:
  assumes "component_names R cat proj = Inr cs"
  shows "\<exists>cats ps kvs. R = JDict cats \<and> map_of cats cat = Some (JDict ps)
           \<and> map_of ps proj = Some (JDict kvs) \<and> cs = map fst kvs"
proof -
  from assms obtain cats where R: "R = JDict cats"
    by (cases R) (simp_all add: component_names_def bind_def)
  from assms R obtain v where v: "map_of cats cat = Some v"
    by (cases "map_of cats cat") (simp_all add: component_names_def bind_def)
  from assms R v obtain ps where ps: "v = JDict ps"
    by (cases v) (simp_all add: component_names_def bind_def)
  from assms R v ps obtain w where w: "map_of ps proj = Some w"
    by (cases "map_of ps proj") (simp_all add: component_names_def bind_def)
  from assms R v ps w obtain kvs where kvs: "w = JDict kvs"
    by (cases w) (simp_all add: component_names_def bind_def)
  from assms R v ps w kvs have "cs = map fst kvs"
    by (simp add: component_names_def bind_def)
  with R v ps w kvs show ?thesis by blast
qed

lemma project_names_InrD:
  assumes "project_names R cat = Inr ps"
  shows "\<exists>cats kvs. R = JDict cats \<and> map_of cats cat = Some (JDict kvs) \<and> ps = map fst kvs"
proof -
  from assms obtain cats where R: "R = JDict cats"
    by (cases R) (simp_all add: project_names_def bind_def)
  from assms R obtain v where v: "map_of cats cat = Some v"
    by (cases "map_of cats cat") (simp_all add: project_names_def bind_def)
  from assms R v obtain kvs where kvs: "v = JDict kvs"
    by (cases v) (simp_all add: project_names_def bind_def)
  from assms R v kvs have "ps = map fst kvs"
    by (simp add: project_names_def bind_def)
  with R v kvs show ?thesis by blast
qed

lemma map_of_Some_in_keys: "map_of kvs k = Some v \<Longrightarrow> k \<in> fst ` set kvs"
  by (metis map_of_eq_None_iff option.distinct(1))

lemma items_addItems_clear [simp]: "items (addItems xs (clear c)) = xs"
  by (simp add: addItems_def clear_def)

lemma on_project_change_items:
  assumes "currentText (cat_combo s) \<noteq> []" and "text \<noteq> []"
    and "component_names (repos_value s) (currentText (cat_combo s)) text = Inr cs"
  shows "on_project_change text s =
           (None, s\<lparr>component_combo := addItems (sort cs) (clear (component_combo s))\<rparr>)"
proof -
  from component_names_InrD [OF assms(3)] obtain cats ps kvs where
    R: "repos_value s = JDict cats"
    and ps: "map_of cats (currentText (cat_combo s)) = Some (JDict ps)"
    and kvs: "map_of ps text = Some (JDict kvs)" and cs: "cs = map fst kvs"
    by blast
  have R1: "repos_value (s\<lparr>component_combo := x\<rparr>) = JDict cats" for x
    using R by simp
  from ps have a: "currentText (cat_combo s) \<in> fst ` set cats" by (rule map_of_Some_in_keys)
  from kvs have b: "text \<in> fst ` set ps" by (rule map_of_Some_in_keys)
  from assms(1,2) a b ps kvs cs show ?thesis
    by (simp add: on_project_change_def Let_def bind_def R)
qed

lemma set_project_combo_frame:
  assumes "is_catalog (repos_value s)"
  shows "\<exists>cc. set_project_combo c s = s\<lparr>project_combo := c, component_combo := cc\<rparr>"
proof (cases "currentText c \<noteq> currentText (project_combo s)")
  case True
  from assms have "is_catalog (repos_value (s\<lparr>project_combo := c\<rparr>))" by simp
  from on_project_change_frame [OF this, of "currentText c"] True show ?thesis
    by (auto simp add: set_project_combo_def)
next
  case False
  have "s\<lparr>project_combo := c\<rparr> = s\<lparr>project_combo := c, component_combo := component_combo s\<rparr>"
    by simp
  with False show ?thesis
    unfolding set_project_combo_def by (metis (full_types))
qed

lemma currentText_addItems_clear:
  "currentText (addItems xs (clear c)) = (if xs = [] then [] else hd xs)"
  by (cases xs) (simp_all add: addItems_def clear_def currentText_def)

lemma setCurrentIndex_addItems_clear:
  "xs \<noteq> [] \<Longrightarrow> setCurrentIndex 0 (addItems xs (clear c)) = addItems xs (clear c)"
  by (simp add: addItems_def clear_def setCurrentIndex_def)

lemma sort_eq_Nil [simp]: "(sort xs = []) = (xs = [])"
  by (metis length_0_conv length_sort)

lemma items_clear [simp]: "items (clear c) = []"
  by (simp add: clear_def)

text \<open>Line 340: an empty category text or an empty project text is no selection.\<close>

lemma on_project_change_unnamed:
  assumes "currentText (cat_combo s) = [] \<or> text = []"
  shows "on_project_change text s = (None, s\<lparr>component_combo := clear (component_combo s)\<rparr>)"
  using assms by (auto simp add: on_project_change_def Let_def)

text \<open>Line 330: an empty category text is no selection.\<close>

lemma on_category_change_unnamed:
  assumes "is_catalog (repos_value s)"
  shows "\<exists>cc. on_category_change [] s
                = (None, s\<lparr>project_combo := clear (project_combo s), component_combo := cc\<rparr>)"
  using set_project_combo_frame [OF assms, of "clear (project_combo s)"]
  by (auto simp add: on_category_change_def Let_def)

text \<open>Lines 328 to 334 for a category with a non-empty name.\<close>

lemma on_category_change_named:
  assumes "is_catalog (repos_value s)"
    and "cat \<noteq> []"
    and "currentText (cat_combo s) = cat"
    and "project_names (repos_value s) cat = Inr ps"
  shows "\<exists>s'. on_category_change cat s = (None, s')
           \<and> repos_value s' = repos_value s
           \<and> currentText (cat_combo s') = cat
           \<and> items (project_combo s') = sort ps
           \<and> currentText (project_combo s') = (if ps = [] then [] else hd (sort ps))
           \<and> (\<forall>cs. currentText (project_combo s') \<noteq> [] \<longrightarrow>
                 component_names (repos_value s) cat (currentText (project_combo s')) = Inr cs \<longrightarrow>
                 items (component_combo s') = sort cs)
           \<and> (ps \<noteq> [] \<and> currentText (project_combo s') = [] \<longrightarrow>
                 items (component_combo s') = [])"
proof -
  from project_names_InrD [OF assms(4)] obtain cats kvs where
    R: "repos_value s = JDict cats" and kvs: "map_of cats cat = Some (JDict kvs)"
    and ps: "ps = map fst kvs"
    by blast
  from kvs have in_cats: "cat \<in> fst ` set cats" by (rule map_of_Some_in_keys)
  define c2 where "c2 = addItems (sort ps) (clear (project_combo s))"
  from set_project_combo_frame [OF assms(1)] obtain cc1 where
    s1: "set_project_combo (clear (project_combo s)) s =
           s\<lparr>project_combo := clear (project_combo s), component_combo := cc1\<rparr>"
    by blast
  define s1 where "s1 = s\<lparr>project_combo := clear (project_combo s), component_combo := cc1\<rparr>"
  have R1: "repos_value s1 = JDict cats" using R by (simp add: s1_def)
  have cat1: "is_catalog (repos_value s1)" using assms(1) by (simp add: s1_def)
  from set_project_combo_frame [OF cat1] obtain cc2 where
    s2: "set_project_combo c2 s1 = s1\<lparr>project_combo := c2, component_combo := cc2\<rparr>"
    by blast
  define s2 where "s2 = s1\<lparr>project_combo := c2, component_combo := cc2\<rparr>"
  have R2: "repos_value s2 = repos_value s" by (simp add: s2_def s1_def)
  have cat2: "is_catalog (repos_value s2)" using assms(1) R2 by simp
  have cur2: "currentText (cat_combo s2) = cat" using assms(3) by (simp add: s2_def s1_def)
  have pc2: "project_combo s2 = c2" by (simp add: s2_def)
  have items2: "items c2 = sort ps" by (simp add: c2_def)
  have text2: "currentText c2 = (if ps = [] then [] else hd (sort ps))"
    by (simp add: c2_def currentText_addItems_clear)
  have step: "on_category_change cat s =
                (if combo_count c2 > 0 then
                   on_project_change
                     (currentText (project_combo (set_project_combo (setCurrentIndex 0 c2) s2)))
                     (set_project_combo (setCurrentIndex 0 c2) s2)
                 else (None, s2))"
  proof -
    have a1: "set_project_combo (clear (project_combo s)) s = s1"
      using s1 by (simp add: s1_def)
    have a2: "py_contains (repos_value s1) cat = Inr True"
      using in_cats by (simp add: R1)
    have a3: "py_getitem (repos_value s1) cat = Inr (JDict kvs)"
      using kvs by (simp add: R1)
    have a5: "addItems (sort (map fst kvs)) (project_combo s1) = c2"
      by (simp add: c2_def s1_def ps)
    have a6: "set_project_combo c2 s1 = s2"
      using s2 by (simp add: s2_def)
    show ?thesis
      by (simp add: on_category_change_def bind_def Let_def a1 a2 a3 a5 a6 assms(2) pc2)
  qed
  show ?thesis
  proof (cases "ps = []")
    case True
    then have "on_category_change cat s = (None, s2)"
      using step items2 by (simp add: combo_count_def)
    moreover have "items (project_combo s2) = sort ps" using pc2 items2 by simp
    moreover have "currentText (project_combo s2) = []" using pc2 text2 True by simp
    ultimately show ?thesis
      using True R2 cur2 by auto
  next
    case False
    then have same: "setCurrentIndex 0 c2 = c2"
      by (simp add: c2_def setCurrentIndex_addItems_clear)
    have "set_project_combo c2 s2 = s2"
      by (simp add: set_project_combo_def pc2)
    with False have step': "on_category_change cat s = on_project_change (currentText c2) s2"
      using step items2 same by (simp add: combo_count_def pc2)
    from on_project_change_frame [OF cat2, of "currentText c2"] obtain cc3 where
      s3: "on_project_change (currentText c2) s2 = (None, s2\<lparr>component_combo := cc3\<rparr>)"
      by blast
    define s' where "s' = s2\<lparr>component_combo := cc3\<rparr>"
    have res: "on_category_change cat s = (None, s')" using step' s3 by (simp add: s'_def)
    have pc': "project_combo s' = c2" by (simp add: s'_def pc2)
    have R': "repos_value s' = repos_value s" using R2 by (simp add: s'_def)
    have cur': "currentText (cat_combo s') = cat" using cur2 by (simp add: s'_def)
    have comps: "items (component_combo s') = sort cs"
      if "currentText c2 \<noteq> []" and "component_names (repos_value s) cat (currentText c2) = Inr cs"
      for cs
    proof -
      from on_project_change_items [of s2 "currentText c2" cs] that cur2 R2 assms(2)
      have "on_project_change (currentText c2) s2 =
              (None, s2\<lparr>component_combo := addItems (sort cs) (clear (component_combo s2))\<rparr>)"
        by simp
      with s3 have "s' = s2\<lparr>component_combo := addItems (sort cs) (clear (component_combo s2))\<rparr>"
        by (simp add: s'_def)
      then show ?thesis by simp
    qed
    have none: "items (component_combo s') = []" if "currentText c2 = []"
    proof -
      from on_project_change_unnamed [of s2 "currentText c2"] that
      have "on_project_change (currentText c2) s2 =
              (None, s2\<lparr>component_combo := clear (component_combo s2)\<rparr>)"
        by simp
      with s3 have "s' = s2\<lparr>component_combo := clear (component_combo s2)\<rparr>"
        by (simp add: s'_def)
      then show ?thesis by simp
    qed
    from res R' cur' pc' items2 text2 comps none show ?thesis
      by (intro exI [of _ s']) auto
  qed
qed

text \<open>
  C9 (as amended): the catalog is well-shaped and \<open>cat\<close> is the current text of
  \<^verbatim>\<open>cat_combo\<close>.
  \<^item> If \<open>cat\<close> is not empty and the category has the project names \<open>ps\<close>, then
    \<^verbatim>\<open>on_category_change\<close> fills \<^verbatim>\<open>project_combo\<close> with exactly \<open>sort ps\<close> and makes the
    first of them current. When that project has a non-empty name, \<^verbatim>\<open>component_combo\<close>
    holds exactly its component names, sorted; when its name is empty, \<^verbatim>\<open>component_combo\<close>
    is empty. Selecting a project \<open>proj\<close> afterwards (\<^verbatim>\<open>on_project_change\<close>) fills
    \<^verbatim>\<open>component_combo\<close> with exactly the sorted component names of \<open>proj\<close> when \<open>proj\<close> is not
    empty, and leaves it empty when \<open>proj\<close> is empty.
  \<^item> If \<open>cat\<close> is empty, \<^verbatim>\<open>on_category_change\<close> leaves \<^verbatim>\<open>project_combo\<close> empty, and
    selecting any project afterwards leaves \<^verbatim>\<open>component_combo\<close> empty.
\<close>

theorem C9_lists_sorted:
  assumes "is_catalog (repos_value s)"
    and "currentText (cat_combo s) = cat"
  shows "(cat \<noteq> [] \<longrightarrow>
            (\<forall>ps. project_names (repos_value s) cat = Inr ps \<longrightarrow>
               (\<exists>s'. on_category_change cat s = (None, s')
                  \<and> items (project_combo s') = sort ps
                  \<and> currentText (project_combo s') = (if ps = [] then [] else hd (sort ps))
                  \<and> (\<forall>cs. currentText (project_combo s') \<noteq> [] \<longrightarrow>
                        component_names (repos_value s) cat (currentText (project_combo s'))
                          = Inr cs \<longrightarrow>
                        items (component_combo s') = sort cs)
                  \<and> (ps \<noteq> [] \<and> currentText (project_combo s') = [] \<longrightarrow>
                        items (component_combo s') = [])
                  \<and> (\<forall>proj cs. proj \<noteq> [] \<longrightarrow>
                        component_names (repos_value s) cat proj = Inr cs \<longrightarrow>
                        (\<exists>s''. on_project_change proj s' = (None, s'')
                           \<and> items (component_combo s'') = sort cs
                           \<and> items (project_combo s'') = sort ps))
                  \<and> (\<exists>s''. on_project_change [] s' = (None, s'')
                         \<and> items (component_combo s'') = []
                         \<and> items (project_combo s'') = sort ps))))
         \<and> (cat = [] \<longrightarrow>
              (\<exists>s'. on_category_change cat s = (None, s')
                 \<and> items (project_combo s') = []
                 \<and> (\<forall>proj. \<exists>s''. on_project_change proj s' = (None, s'')
                        \<and> items (component_combo s'') = []
                        \<and> items (project_combo s'') = [])))"
proof (intro conjI impI allI)
  fix ps
  assume named: "cat \<noteq> []" and ps: "project_names (repos_value s) cat = Inr ps"
  from on_category_change_named [OF assms(1) named assms(2) ps] obtain s' where
    res: "on_category_change cat s = (None, s')"
    and R': "repos_value s' = repos_value s"
    and cur': "currentText (cat_combo s') = cat"
    and items': "items (project_combo s') = sort ps"
    and text': "currentText (project_combo s') = (if ps = [] then [] else hd (sort ps))"
    and comps: "\<forall>cs. currentText (project_combo s') \<noteq> [] \<longrightarrow>
                  component_names (repos_value s) cat (currentText (project_combo s')) = Inr cs \<longrightarrow>
                  items (component_combo s') = sort cs"
    and none: "ps \<noteq> [] \<and> currentText (project_combo s') = [] \<longrightarrow>
                 items (component_combo s') = []"
    by blast
  have later: "\<forall>proj cs. proj \<noteq> [] \<longrightarrow>
                 component_names (repos_value s) cat proj = Inr cs \<longrightarrow>
                 (\<exists>s''. on_project_change proj s' = (None, s'')
                    \<and> items (component_combo s'') = sort cs
                    \<and> items (project_combo s'') = sort ps)"
  proof (intro allI impI)
    fix proj cs
    assume "proj \<noteq> []" and "component_names (repos_value s) cat proj = Inr cs"
    with on_project_change_items [of s' proj cs] named R' cur' items'
    show "\<exists>s''. on_project_change proj s' = (None, s'')
            \<and> items (component_combo s'') = sort cs
            \<and> items (project_combo s'') = sort ps"
      by simp
  qed
  have unnamed: "\<exists>s''. on_project_change [] s' = (None, s'')
                   \<and> items (component_combo s'') = []
                   \<and> items (project_combo s'') = sort ps"
    using on_project_change_unnamed [of s' "[]"] items' by simp
  show "\<exists>s'. on_category_change cat s = (None, s')
          \<and> items (project_combo s') = sort ps
          \<and> currentText (project_combo s') = (if ps = [] then [] else hd (sort ps))
          \<and> (\<forall>cs. currentText (project_combo s') \<noteq> [] \<longrightarrow>
                component_names (repos_value s) cat (currentText (project_combo s'))
                  = Inr cs \<longrightarrow>
                items (component_combo s') = sort cs)
          \<and> (ps \<noteq> [] \<and> currentText (project_combo s') = [] \<longrightarrow>
                items (component_combo s') = [])
          \<and> (\<forall>proj cs. proj \<noteq> [] \<longrightarrow>
                component_names (repos_value s) cat proj = Inr cs \<longrightarrow>
                (\<exists>s''. on_project_change proj s' = (None, s'')
                   \<and> items (component_combo s'') = sort cs
                   \<and> items (project_combo s'') = sort ps))
          \<and> (\<exists>s''. on_project_change [] s' = (None, s'')
                 \<and> items (component_combo s'') = []
                 \<and> items (project_combo s'') = sort ps)"
    by (insert res items' text' comps none later unnamed, rule exI [of _ s'], intro conjI)
next
  assume empty: "cat = []"
  from on_category_change_unnamed [OF assms(1)] obtain cc where
    res: "on_category_change [] s
            = (None, s\<lparr>project_combo := clear (project_combo s), component_combo := cc\<rparr>)"
    by blast
  define s' where "s' = s\<lparr>project_combo := clear (project_combo s), component_combo := cc\<rparr>"
  have res': "on_category_change cat s = (None, s')"
    using res empty by (simp add: s'_def)
  have items': "items (project_combo s') = []"
    by (simp add: s'_def)
  have "currentText (cat_combo s') = []"
    using assms(2) empty by (simp add: s'_def)
  then have "on_project_change proj s' = (None, s'\<lparr>component_combo := clear (component_combo s')\<rparr>)"
    for proj
    by (simp add: on_project_change_unnamed)
  then have later: "\<forall>proj. \<exists>s''. on_project_change proj s' = (None, s'')
                      \<and> items (component_combo s'') = []
                      \<and> items (project_combo s'') = []"
    using items' by simp
  show "\<exists>s'. on_category_change cat s = (None, s')
          \<and> items (project_combo s') = []
          \<and> (\<forall>proj. \<exists>s''. on_project_change proj s' = (None, s'')
                 \<and> items (component_combo s'') = []
                 \<and> items (project_combo s'') = [])"
    by (insert res' items' later, rule exI [of _ s'], intro conjI)
qed

theorem C9_lists_sorted_witness:
  "is_catalog (repos_value (demo_app\<lparr>cat_combo := setCurrentIndex 1 (cat_combo demo_app)\<rparr>))
   \<and> currentText (cat_combo (demo_app\<lparr>cat_combo := setCurrentIndex 1 (cat_combo demo_app)\<rparr>))
       = ''localization''
   \<and> project_names
        (repos_value (demo_app\<lparr>cat_combo := setCurrentIndex 1 (cat_combo demo_app)\<rparr>))
        ''localization'' = Inr [''ProjectA'']
   \<and> (\<exists>s'. on_category_change ''localization''
               (demo_app\<lparr>cat_combo := setCurrentIndex 1 (cat_combo demo_app)\<rparr>) = (None, s')
          \<and> items (project_combo s') = [''ProjectA'']
          \<and> currentText (project_combo s') = ''ProjectA''
          \<and> items (component_combo s') = [''strings'', ''ui''])
   \<and> is_catalog (repos_value unnamed_app)
   \<and> currentText (cat_combo unnamed_app) = ''''
   \<and> (\<exists>s'. on_category_change '''' unnamed_app = (None, s')
          \<and> items (project_combo s') = []
          \<and> (\<exists>s''. on_project_change ''P'' s' = (None, s'')
                 \<and> items (component_combo s'') = []))"
proof -
  define s where "s = demo_app\<lparr>cat_combo := setCurrentIndex 1 (cat_combo demo_app)\<rparr>"
  have rv: "repos_value s = SAMPLE_CONFIG"
    by (simp add: s_def demo_app_def repos_value_def)
  have a: "is_catalog (repos_value s)"
    by (simp add: rv is_catalog_SAMPLE_CONFIG)
  have b: "''localization'' \<noteq> []" by simp
  have c: "currentText (cat_combo s) = ''localization''"
    by (simp add: s_def demo_app_def setCurrentIndex_def currentText_def)
  have d: "project_names (repos_value s) ''localization'' = Inr [''ProjectA'']"
    by (simp add: rv SAMPLE_CONFIG_def project_names_def bind_def)
  have e: "component_names (repos_value s) ''localization'' ''ProjectA'' = Inr [''ui'', ''strings'']"
    by (simp add: rv SAMPLE_CONFIG_def component_names_def bind_def)
  from C9_lists_sorted [OF a c, THEN conjunct1, rule_format, OF b d] obtain s' where
    r: "on_category_change ''localization'' s = (None, s')"
    and p: "items (project_combo s') = sort [''ProjectA'']"
    and t: "currentText (project_combo s') = (if [''ProjectA''] = [] then [] else hd (sort [''ProjectA'']))"
    and k: "\<forall>cs. currentText (project_combo s') \<noteq> [] \<longrightarrow>
              component_names (repos_value s) ''localization'' (currentText (project_combo s'))
                = Inr cs \<longrightarrow> items (component_combo s') = sort cs"
    by blast
  from t have t': "currentText (project_combo s') = ''ProjectA''" by simp
  from k t' e have "items (component_combo s') = sort [''ui'', ''strings'']" by simp
  then have k': "items (component_combo s') = [''strings'', ''ui'']" by simp
  from p have p': "items (project_combo s') = [''ProjectA'']" by simp
  have first: "\<exists>s'. on_category_change ''localization'' s = (None, s')
          \<and> items (project_combo s') = [''ProjectA'']
          \<and> currentText (project_combo s') = ''ProjectA''
          \<and> items (component_combo s') = [''strings'', ''ui'']"
    by (insert r p' t' k', rule exI [of _ s'], intro conjI)
  have a2: "is_catalog (repos_value unnamed_app)"
    by (simp add: unnamed_app_def unnamed_catalog_def repos_value_def is_catalog_def
        is_dict_of_def is_url_def)
  have c2: "currentText (cat_combo unnamed_app) = ''''"
    by (simp add: unnamed_app_def currentText_def)
  have b2: "'''' = ([] :: string)" by simp
  from C9_lists_sorted [OF a2 c2, THEN conjunct2, rule_format, OF b2] obtain t where
    r2: "on_category_change '''' unnamed_app = (None, t)"
    and p2: "items (project_combo t) = []"
    and k2: "\<forall>proj. \<exists>s''. on_project_change proj t = (None, s'')
               \<and> items (component_combo s'') = []
               \<and> items (project_combo s'') = []"
    by blast
  from k2 [rule_format, of "''P''"] obtain t' where
    "on_project_change ''P'' t = (None, t')" and "items (component_combo t') = []"
    by blast
  with r2 p2 have second: "\<exists>s'. on_category_change '''' unnamed_app = (None, s')
          \<and> items (project_combo s') = []
          \<and> (\<exists>s''. on_project_change ''P'' s' = (None, s'')
                 \<and> items (component_combo s'') = [])"
    by blast
  show ?thesis
    unfolding s_def [symmetric]
    by (insert a c d first a2 c2 second, intro conjI)
qed

text \<open>
  A category named by the empty string, with the project \<open>P\<close>: it is the current item of
  \<^verbatim>\<open>cat_combo\<close>, but the guard of line 330 takes the empty text for no selection, and the
  project list stays empty. A project named by the empty string, with the component \<open>C\<close>,
  in the category \<^verbatim>\<open>dev\<close>: it is the current item of \<^verbatim>\<open>project_combo\<close>, but the guard of
  line 340 takes the empty text for no selection, and the component list stays empty.
\<close>

theorem C9_empty_name_counterexample:
  "currentText (cat_combo unnamed_app) = ''''
   \<and> project_names (repos_value unnamed_app) '''' = Inr [''P'']
   \<and> on_category_change '''' unnamed_app = (None, unnamed_app)
   \<and> items (project_combo unnamed_app) = []
   \<and> currentText (cat_combo unnamed_project_app) = ''dev''
   \<and> project_names (repos_value unnamed_project_app) ''dev'' = Inr ['''']
   \<and> component_names (repos_value unnamed_project_app) ''dev'' '''' = Inr [''C'']
   \<and> on_category_change ''dev'' unnamed_project_app = (None, unnamed_project_app)
   \<and> items (project_combo unnamed_project_app) = ['''']
   \<and> currentText (project_combo unnamed_project_app) = ''''
   \<and> on_project_change '''' unnamed_project_app = (None, unnamed_project_app)
   \<and> items (component_combo unnamed_project_app) = []"
  by (simp add: unnamed_app_def unnamed_catalog_def unnamed_project_app_def
      unnamed_project_catalog_def currentText_def project_names_def component_names_def
      bind_def repos_value_def on_category_change_def on_project_change_def
      set_project_combo_def clear_def empty_combo_def addItems_def setCurrentIndex_def
      combo_count_def Let_def)
subsection \<open>Starting a clone\<close>

lemma start_clone_live:
  "live_threads (start_clone L u d s) = live_threads s @ [CloneThread u d]"
  "clone_thread (start_clone L u d s) = Some (CloneThread u d)"
  "clone_btn_enabled (start_clone L u d s) = False"
  by (simp_all add: start_clone_def append_log_def Let_def)

lemma show_box_fields [simp]:
  "live_threads (show_box i a b s) = live_threads s"
  "clone_thread (show_box i a b s) = clone_thread s"
  "clone_btn_enabled (show_box i a b s) = clone_btn_enabled s"
  by (simp_all add: show_box_def)

lemma clone_button_clicked_starts:
  assumes "clone_button_clicked L w s = Inr s'" and "live_threads s' \<noteq> live_threads s"
  shows "\<exists>u s0. lookup_url (repos_value s) (currentText (cat_combo s))
                 (currentText (project_combo s)) (currentText (component_combo s)) = Inr u
          \<and> s' = start_clone L u
                 (joinpath L (joinpath L (strip (dest_line s)) (currentText (project_combo s)))
                    (currentText (component_combo s))) s0
          \<and> live_threads s0 = live_threads s"
  using assms
  by (auto simp add: clone_button_clicked_def Let_def
      split: if_splits sum.splits bool.splits option.splits)

text \<open>
  C8: whenever \<^verbatim>\<open>clone_button_clicked\<close> starts a thread, the thread's destination is
  \<^verbatim>\<open>Path(r) / p / c\<close> for the stripped text \<open>r\<close> of the destination field, the current
  project \<open>p\<close> and the current component \<open>c\<close>, and its URL is the catalog's entry for the
  selection. In every world, \<^verbatim>\<open>run\<close> first calls \<^verbatim>\<open>mkdir\<close> on the parent of that
  destination; only when that has succeeded does it call \<^verbatim>\<open>git clone\<close> with the URL and
  that destination.
\<close>

theorem C8_clone_destination:
  assumes "clone_button_clicked L w s = Inr s'"
    and "live_threads s' \<noteq> live_threads s"
    and "d = joinpath L (joinpath L (strip (dest_line s)) (currentText (project_combo s)))
               (currentText (component_combo s))"
  shows "\<exists>u. live_threads s' = live_threads s @ [CloneThread u d]
           \<and> lookup_url (repos_value s) (currentText (cat_combo s))
                 (currentText (project_combo s)) (currentText (component_combo s)) = Inr u
           \<and> (\<forall>rw. (mkdir_raises rw = None \<longrightarrow>
                      (\<exists>rest. fst (run L rw (CloneThread u d)) =
                         Mkdir (parent L d)
                         # Log (''Starting clone: '' @ format_value L u @ '' -> '' @ d
                                @ ''\<newline>'')
                         # Popen [JStr ''git'', JStr ''clone'', u, JStr d] # rest))
                  \<and> (\<forall>m. mkdir_raises rw = Some m \<longrightarrow>
                        run L rw (CloneThread u d) = ([Mkdir (parent L d)], Raises m)))"
proof -
  from clone_button_clicked_starts [OF assms(1,2)] assms(3) obtain u s0 where
    u: "lookup_url (repos_value s) (currentText (cat_combo s))
          (currentText (project_combo s)) (currentText (component_combo s)) = Inr u"
    and s': "s' = start_clone L u d s0" and s0: "live_threads s0 = live_threads s"
    by auto
  have live: "live_threads s' = live_threads s @ [CloneThread u d]"
    by (simp add: s' s0 start_clone_live)
  have ok: "\<exists>rest. fst (run L rw (CloneThread u d)) =
              Mkdir (parent L d)
              # Log (''Starting clone: '' @ format_value L u @ '' -> '' @ d @ ''\<newline>'')
              # Popen [JStr ''git'', JStr ''clone'', u, JStr d] # rest"
    if "mkdir_raises rw = None" for rw
    using that by (cases "popen rw") (simp_all add: run_def CloneThread_def)
  have bad: "run L rw (CloneThread u d) = ([Mkdir (parent L d)], Raises m)"
    if "mkdir_raises rw = Some m" for rw m
    using that by (simp add: run_def CloneThread_def)
  from live u ok bad show ?thesis by blast
qed

theorem C8_clone_destination_witness:
  "clone_button_clicked demo_lib fresh_dest demo_app =
     Inr (start_clone demo_lib (JStr ''https://github.com/user/projectA-component2.git'')
            ''/home/user/cloned/ProjectA/Component2'' demo_app)
   \<and> live_threads
        (start_clone demo_lib (JStr ''https://github.com/user/projectA-component2.git'')
           ''/home/user/cloned/ProjectA/Component2'' demo_app) \<noteq> live_threads demo_app
   \<and> ''/home/user/cloned/ProjectA/Component2'' =
       joinpath demo_lib
         (joinpath demo_lib (strip (dest_line demo_app)) (currentText (project_combo demo_app)))
         (currentText (component_combo demo_app))
   \<and> (\<exists>u. live_threads
              (start_clone demo_lib (JStr ''https://github.com/user/projectA-component2.git'')
                 ''/home/user/cloned/ProjectA/Component2'' demo_app)
            = live_threads demo_app @ [CloneThread u ''/home/user/cloned/ProjectA/Component2'']
          \<and> fst (run demo_lib \<lparr>mkdir_raises = None, popen = Popen_FileNotFoundError\<rparr>
                    (CloneThread u ''/home/user/cloned/ProjectA/Component2''))
            = [Mkdir ''/home/user/cloned/ProjectA'',
               Log (''Starting clone: '' @ format_value demo_lib u @ '' -> ''
                    @ ''/home/user/cloned/ProjectA/Component2'' @ ''\<newline>''),
               Popen [JStr ''git'', JStr ''clone'', u,
                      JStr ''/home/user/cloned/ProjectA/Component2''],
               Log ''Error: 'git' not found. Please install Git and ensure it is on PATH.\<newline>'',
               Finished False ''git-not-found''])"
proof -
  define s' where
    "s' = start_clone demo_lib (JStr ''https://github.com/user/projectA-component2.git'')
            ''/home/user/cloned/ProjectA/Component2'' demo_app"
  have a: "clone_button_clicked demo_lib fresh_dest demo_app = Inr s'"
    by (simp add: clone_button_clicked_def s'_def demo_app_def demo_lib_def fresh_dest_def
        currentText_def lookup_url_def bind_def repos_value_def SAMPLE_CONFIG_def Let_def
        strip_def lstrip_def rstrip_def isspace_def)
  have b: "live_threads s' \<noteq> live_threads demo_app"
    by (simp add: s'_def start_clone_live)
  have c: "''/home/user/cloned/ProjectA/Component2'' =
       joinpath demo_lib
         (joinpath demo_lib (strip (dest_line demo_app)) (currentText (project_combo demo_app)))
         (currentText (component_combo demo_app))"
    by (simp add: demo_app_def demo_lib_def currentText_def strip_def lstrip_def rstrip_def
        isspace_def)
  have p: "parent demo_lib ''/home/user/cloned/ProjectA/Component2'' = ''/home/user/cloned/ProjectA''"
    by (simp add: demo_lib_def)
  from C8_clone_destination [OF a b c] obtain u where
    l: "live_threads s' =
          live_threads demo_app @ [CloneThread u ''/home/user/cloned/ProjectA/Component2'']"
    by blast
  have r: "fst (run demo_lib \<lparr>mkdir_raises = None, popen = Popen_FileNotFoundError\<rparr>
                    (CloneThread u ''/home/user/cloned/ProjectA/Component2''))
            = [Mkdir ''/home/user/cloned/ProjectA'',
               Log (''Starting clone: '' @ format_value demo_lib u @ '' -> ''
                    @ ''/home/user/cloned/ProjectA/Component2'' @ ''\<newline>''),
               Popen [JStr ''git'', JStr ''clone'', u,
                      JStr ''/home/user/cloned/ProjectA/Component2''],
               Log ''Error: 'git' not found. Please install Git and ensure it is on PATH.\<newline>'',
               Finished False ''git-not-found'']"
    by (simp add: run_def CloneThread_def p)
  from a b c l r show ?thesis unfolding s'_def by blast
qed

text \<open>
  C3: at most one clone should be in flight. Starting a clone disables the button
  \<^verbatim>\<open>clone_btn\<close> only. With the first thread still live, a click on the button does nothing,
  but the toolbar action, connected to the same handler, starts a second thread.
\<close>

theorem C3_second_clone_while_first_runs:
  "\<exists>s1 s2.
      click_clone_btn demo_lib fresh_dest demo_app = Inr s1
      \<and> clone_btn_enabled s1 = False
      \<and> map dest (live_threads s1) = [''/home/user/cloned/ProjectA/Component2'']
      \<and> click_clone_btn demo_lib fresh_dest
           (s1\<lparr>component_combo := setCurrentIndex 1 (component_combo s1)\<rparr>)
          = Inr (s1\<lparr>component_combo := setCurrentIndex 1 (component_combo s1)\<rparr>)
      \<and> trigger_clone_action demo_lib fresh_dest
           (s1\<lparr>component_combo := setCurrentIndex 1 (component_combo s1)\<rparr>) = Inr s2
      \<and> map dest (live_threads s2) =
           [''/home/user/cloned/ProjectA/Component2'', ''/home/user/cloned/ProjectA/Test'']"
  by (simp add: click_clone_btn_def trigger_clone_action_def clone_button_clicked_def
      start_clone_def append_log_def CloneThread_def demo_app_def demo_lib_def fresh_dest_def
      currentText_def setCurrentIndex_def lookup_url_def bind_def repos_value_def
      SAMPLE_CONFIG_def Let_def strip_def lstrip_def rstrip_def isspace_def format_value_def)

end
